theory Spec2Isabelle
  imports Complex_Main
begin

section \<open>Python values and exceptions\<close>

text \<open>
  The clipboard widget (\<^verbatim>\<open>qui/clipboard.py\<close>) keeps the metadata of a transfer in a
  Python \<^verbatim>\<open>dict\<close> that is either read from a JSON file or synthesised.  The values such a
  dict can hold are modelled by \<open>pyval\<close>.  A Python \<^verbatim>\<open>str\<close> is represented by its UTF-8
  bytes (an injective encoding, and every string literal of the source is ASCII); a dict
  is the list of its items in insertion order, the last item of a key being the one a
  lookup finds.  A JSON number with a fraction or an exponent becomes a Python float: the
  model keeps its literal and does not compute with it.
\<close>

datatype pyval =
    PNone
  | PBool bool
  | PInt int
  | PFloat string
  | PStr string
  | PList "pyval list"
  | PDict "(string \<times> pyval) list"

text \<open>
  Every way a call can end without a value.  \<open>Unmodelled\<close> is not a Python exception:
  it marks the places where the source computes with a float, orders two strings or
  lists, or prints a container, which this model does not spell out.
\<close>

datatype abort =
    KeyError string
  | TypeError
  | OSError
  | UnicodeDecodeError
  | UnicodeEncodeError
  | JSONDecodeError
  | ValueError
  | OverflowError
  | Unmodelled

type_synonym 'a result = "abort + 'a"

definition bind :: "'a result \<Rightarrow> ('a \<Rightarrow> 'b result) \<Rightarrow> 'b result" where
  "bind r f = (case r of Inl e \<Rightarrow> Inl e | Inr v \<Rightarrow> f v)"

text \<open>\<^verbatim>\<open>d[k]\<close> for a string key: only a dict can be subscripted by a string.\<close>

definition py_getitem :: "pyval \<Rightarrow> string \<Rightarrow> pyval result" where
  "py_getitem d k =
     (case d of
        PDict kvs \<Rightarrow> (case map_of (rev kvs) k of None \<Rightarrow> Inl (KeyError k) | Some v \<Rightarrow> Inr v)
      | _ \<Rightarrow> Inl TypeError)"

text \<open>\<^verbatim>\<open>k in d.keys()\<close>: a value that is not a dict has no \<^verbatim>\<open>keys\<close> (AttributeError in
  Python; the handler reaches this test only after a successful \<^verbatim>\<open>d["successful"]\<close>, so only
  with a dict).\<close>

definition py_haskey :: "pyval \<Rightarrow> string \<Rightarrow> bool result" where
  "py_haskey d k =
     (case d of PDict kvs \<Rightarrow> Inr (k \<in> fst ` set kvs) | _ \<Rightarrow> Inl TypeError)"

text \<open>Truth value testing (\<^verbatim>\<open>if x:\<close>, \<^verbatim>\<open>not x\<close>, \<^verbatim>\<open>x and y\<close>).\<close>

fun py_truth :: "pyval \<Rightarrow> bool result" where
  "py_truth PNone = Inr False"
| "py_truth (PBool b) = Inr b"
| "py_truth (PInt n) = Inr (n \<noteq> 0)"
| "py_truth (PFloat _) = Inl Unmodelled"
| "py_truth (PStr s) = Inr (s \<noteq> [])"
| "py_truth (PList xs) = Inr (xs \<noteq> [])"
| "py_truth (PDict kvs) = Inr (kvs \<noteq> [])"

text \<open>The integer a value stands for in arithmetic and comparison (\<^verbatim>\<open>bool\<close> is a subclass
  of \<^verbatim>\<open>int\<close>); \<open>None\<close> for a value that is not an integer.\<close>

fun py_int :: "pyval \<Rightarrow> int option" where
  "py_int (PInt n) = Some n"
| "py_int (PBool b) = Some (if b then 1 else 0)"
| "py_int _ = None"

fun is_float :: "pyval \<Rightarrow> bool" where
  "is_float (PFloat _) = True"
| "is_float _ = False"

fun same_sequence_type :: "pyval \<Rightarrow> pyval \<Rightarrow> bool" where
  "same_sequence_type (PStr _) (PStr _) = True"
| "same_sequence_type (PList _) (PList _) = True"
| "same_sequence_type _ _ = False"

text \<open>\<^verbatim>\<open>a >= b\<close>.  Integers compare by value; Python raises TypeError for operands of
  unrelated types.\<close>

definition py_ge :: "pyval \<Rightarrow> pyval \<Rightarrow> bool result" where
  "py_ge a b =
     (case (py_int a, py_int b) of
        (Some x, Some y) \<Rightarrow> Inr (x \<ge> y)
      | _ \<Rightarrow>
          if (is_float a \<and> (is_float b \<or> py_int b \<noteq> None))
             \<or> (is_float b \<and> py_int a \<noteq> None)
             \<or> same_sequence_type a b
          then Inl Unmodelled else Inl TypeError)"

subsection \<open>Decimal numerals\<close>

definition digit_char :: "nat \<Rightarrow> char" where
  "digit_char d = ''0123456789'' ! d"

function str_nat :: "nat \<Rightarrow> string" where
  "str_nat n = (if n < 10 then [digit_char n] else str_nat (n div 10) @ [digit_char (n mod 10)])"
  by pat_completeness auto
termination
  by (relation "measure id") auto

declare str_nat.simps [simp del]

text \<open>The decimal numeral of an integer.\<close>

definition str_int :: "int \<Rightarrow> string" where
  "str_int i = (if i < 0 then CHR ''-'' # str_nat (nat (- i)) else str_nat (nat i))"

text \<open>\<^verbatim>\<open>str(i)\<close> for an integer.  CPython 3.11 refuses to print an integer of more than
  4300 digits (\<^verbatim>\<open>sys.int_info.default_max_str_digits\<close>): from \<open>10^4300\<close> on, in absolute
  value, \<^verbatim>\<open>str\<close> raises ValueError.\<close>

definition str_digits_limit :: int where
  "str_digits_limit = 10 ^ 4300"

definition py_str_int :: "int \<Rightarrow> string result" where
  "py_str_int i = (if \<bar>i\<bar> \<ge> str_digits_limit then Inl ValueError else Inr (str_int i))"

text \<open>\<^verbatim>\<open>str(x)\<close> as \<^verbatim>\<open>str.format\<close> and \<^verbatim>\<open>+\<close> use it.\<close>

fun py_str :: "pyval \<Rightarrow> string result" where
  "py_str PNone = Inr ''None''"
| "py_str (PBool b) = Inr (if b then ''True'' else ''False'')"
| "py_str (PInt n) = py_str_int n"
| "py_str (PStr s) = Inr s"
| "py_str (PFloat _) = Inl Unmodelled"
| "py_str (PList _) = Inl Unmodelled"
| "py_str (PDict _) = Inl Unmodelled"


section \<open>Size formatting\<close>

text \<open>
  \<^verbatim>\<open>clipboard_formatted_size\<close> computes
  \<^verbatim>\<open>min(int(math.log(file_size) / math.log(2) * 0.1), len(units) - 1)\<close> in double
  precision.  The truncated quotient is the integer \<open>\<lfloor>log\<^sub>2 file_size\<rfloor> div 10\<close> below
  \<open>2^30\<close> (the double quotient is exactly 1.0, 2.0 and 3.0 at \<open>2^10\<close>, \<open>2^20\<close> and
  \<open>2^30\<close>, and more than \<open>10^-10\<close> below them one byte earlier, far beyond the rounding
  error) and at least 3 from there on, so that the minimum is
  \<open>min (\<lfloor>log\<^sub>2 file_size\<rfloor> div 10) 3\<close> for every positive integer.
\<close>

function floor_log2 :: "nat \<Rightarrow> nat" where
  "floor_log2 n = (if n < 2 then 0 else Suc (floor_log2 (n div 2)))"
  by pat_completeness auto
termination
  by (relation "measure id") auto

declare floor_log2.simps [simp del]

text \<open>
  \<^verbatim>\<open>file_size / (2.0 ** (10 * magnitude))\<close> converts the integer to a double first: to
  the nearest integer with 53 significant bits, ties to even, and with OverflowError when
  that is \<open>2^1024\<close> or more, which is from \<open>2^1024 - 2^970\<close> on.  The division by a power
  of two is exact.
\<close>

definition to_double :: "nat \<Rightarrow> nat" where
  "to_double n =
     (let e = floor_log2 n
      in if e \<le> 52 then n
         else let sh = e - 52;
                  q = n div 2 ^ sh;
                  r = n mod 2 ^ sh
              in (if 2 * r > 2 ^ sh \<or> (2 * r = 2 ^ sh \<and> odd q) then q + 1 else q) * 2 ^ sh)"

definition double_overflow :: int where
  "double_overflow = 2 ^ 1024 - 2 ^ 970"

text \<open>\<^verbatim>\<open>"%.1f" % (n / d)\<close> for a quotient that is exact: rounded to one decimal, ties
  to even.\<close>

definition format_1f :: "nat \<Rightarrow> nat \<Rightarrow> string" where
  "format_1f n d =
     (let q = (10 * n) div d;
          r = (10 * n) mod d;
          t = (if 2 * r > d \<or> (2 * r = d \<and> odd q) then q + 1 else q)
      in str_nat (t div 10) @ ''.'' @ str_nat (t mod 10))"

definition units :: "string list" where
  "units = [''B'', ''KiB'', ''MiB'', ''GiB'']"

text \<open>
  The first argument is what \<^verbatim>\<open>os.path.getsize(DATA)\<close> returns at the time of the
  call, \<open>None\<close> when it raises OSError.  It is consulted only when the \<^verbatim>\<open>size\<close>
  argument \<open>sz\<close> is falsy (\<^verbatim>\<open>None\<close>, and also \<^verbatim>\<open>0\<close>).
\<close>

definition clipboard_formatted_size :: "nat option \<Rightarrow> pyval \<Rightarrow> string result" where
  "clipboard_formatted_size getsize_DATA sz =
     bind (py_truth sz) (\<lambda>given.
       case (if given then Some sz else map_option (\<lambda>n. PInt (int n)) getsize_DATA) of
         None \<Rightarrow> Inr ''? bytes''
       | Some file_size \<Rightarrow>
           (case py_int file_size of
              None \<Rightarrow> if is_float file_size then Inl Unmodelled else Inl TypeError
            | Some n \<Rightarrow>
                bind (if n = 1 then Inr ''1 byte''
                      else bind (py_str_int n) (\<lambda>s. Inr (s @ '' bytes''))) (\<lambda>formatted_bytes.
                  if n > 0 then
                    let magnitude = min (floor_log2 (nat n) div 10) (length units - 1)
                    in if magnitude > 0
                       then if n \<ge> double_overflow then Inl OverflowError
                            else Inr (formatted_bytes @ '' ('' @
                                      format_1f (to_double (nat n)) (2 ^ (10 * magnitude)) @
                                      '' '' @ units ! magnitude @ '')'')
                       else Inr formatted_bytes
                  else Inr formatted_bytes)))"

section \<open>Messages\<close>

text \<open>The message templates, as \<^verbatim>\<open>gettext\<close> returns them when no translation is
  installed (\<^verbatim>\<open>fallback=True\<close>); each \<^verbatim>\<open>str.format\<close> call is a function of its keyword
  arguments.\<close>

definition ERROR_MALFORMED_DATA :: "string \<Rightarrow> string" where
  "ERROR_MALFORMED_DATA vmname =
     ''Malformed clipboard data received from qube: <b>'' @ vmname @ ''</b>''"

definition ERROR_ON_COPY :: "string \<Rightarrow> string" where
  "ERROR_ON_COPY vmname = ''Failed to fetch clipboard data from qube: <b>'' @ vmname @ ''</b>''"

definition ERROR_ON_PASTE :: "string \<Rightarrow> string" where
  "ERROR_ON_PASTE vmname =
     ''Failed to paste global clipboard contents to qube: <b>'' @ vmname @ ''</b>''"

definition ERROR_OVERSIZED_DATA :: "string \<Rightarrow> string \<Rightarrow> string \<Rightarrow> string" where
  "ERROR_OVERSIZED_DATA vmname sz limit =
     ''Global clipboard size exceeded.\<newline>qube: <b>'' @ vmname @ ''</b> attempted to send '' @
     sz @ '' bytes to global clipboard.\<newline>Current global clipboard limit is '' @ limit @
     '', increase limit or use <i>qvm-copy</i> to transfer large amounts of data between qubes.''"

definition WARNING_POSSIBLE_TRUNCATION :: "string \<Rightarrow> string \<Rightarrow> string" where
  "WARNING_POSSIBLE_TRUNCATION vmname sz =
     ''Global clipboard size limit exceed.\<newline>qube: <b>'' @ vmname @
     ''</b> attempted to send '' @ sz @
     '' bytes to global clipboard.\<newline>Global clipboard might have been truncated.\<newline>'' @
     ''<small>Use <i>qvm-copy</i> to transfer large amounts of data between qubes.</small>''"

definition WARNING_EMPTY_CLIPBOARD :: "string \<Rightarrow> string" where
  "WARNING_EMPTY_CLIPBOARD vmname =
     ''Empty source qube clipboard.\<newline>qube: <b>'' @ vmname @
     ''</b> attempted to send <b>0</b> bytes to global clipboard.''"

definition MSG_COPY_SUCCESS :: "string \<Rightarrow> string \<Rightarrow> string \<Rightarrow> string" where
  "MSG_COPY_SUCCESS vmname sz shortcut =
     ''Clipboard contents fetched from qube: <b>'' @ [CHR 0x27] @ vmname @ [CHR 0x27] @
     ''</b>\<newline>Copied <b>'' @ sz @ ''</b> to the global clipboard.\<newline><small>Press '' @
     shortcut @ '' in qube to paste to local clipboard.</small>''"

definition MSG_WIPED :: string where
  "MSG_WIPED = ''\<newline><small>Global clipboard has been wiped</small>''"

definition MSG_PASTE_SUCCESS_METADATA :: "string \<Rightarrow> string \<Rightarrow> string" where
  "MSG_PASTE_SUCCESS_METADATA sz vmname =
     ''Global clipboard copied <b>'' @ sz @ ''</b> to <b>'' @ vmname @
     ''</b>.\<newline>Global clipboard has been wiped.\<newline>'' @
     ''<small>Paste normally in qube (e.g. Ctrl+V).</small>''"

definition MSG_PASTE_SUCCESS_LEGACY :: string where
  "MSG_PASTE_SUCCESS_LEGACY =
     ''Global clipboard copied to qube and wiped.<i/>\<newline>'' @
     ''<small>Paste normally in qube (e.g. Ctrl+V).</small>''"

section \<open>The classifier\<close>

text \<open>What \<^verbatim>\<open>NotificationApp.update_clipboard_contents\<close> does to the user interface: the
  markup of the tray label, and the notification sent (body and icon name), if any.\<close>

record ui_update =
  label :: string
  notification :: "(string \<times> string) option"

text \<open>\<^verbatim>\<open>update_clipboard_contents(vm, size, message, icon)\<close>; the defaults of the source
  are \<^verbatim>\<open>vm=None\<close> and \<^verbatim>\<open>size=0\<close>.\<close>

definition update_clipboard_contents ::
    "pyval \<Rightarrow> pyval \<Rightarrow> string \<Rightarrow> string \<Rightarrow> ui_update result" where
  "update_clipboard_contents vm sz message icon =
     bind (py_truth vm) (\<lambda>has_vm.
     bind (if has_vm then py_truth sz else Inr False) (\<lambda>has_both.
     bind (if \<not> has_both then Inr ''<i>Global clipboard is empty</i>''
           else bind (py_str sz) (\<lambda>s. bind (py_str vm) (\<lambda>v.
                  Inr (''<i>Global clipboard contents: '' @ s @ '' from <b>'' @ v @ ''</b></i>''))))
       (\<lambda>markup.
          Inr \<lparr>label = markup,
               notification = (if message \<noteq> [] then Some (message, icon) else None)\<rparr>)))"

text \<open>\<^verbatim>\<open>metadata[k]\<close> used as a condition, and used as a \<^verbatim>\<open>str.format\<close> argument.\<close>

definition truthy :: "pyval \<Rightarrow> string \<Rightarrow> bool result" where
  "truthy metadata k = bind (py_getitem metadata k) py_truth"

definition formatted :: "pyval \<Rightarrow> string \<Rightarrow> string result" where
  "formatted metadata k = bind (py_getitem metadata k) py_str"

text \<open>\<^verbatim>\<open>x == 0\<close>: never raises; false for a value that is not a number.\<close>

definition py_eq_zero :: "pyval \<Rightarrow> bool result" where
  "py_eq_zero v =
     (case py_int v of
        Some n \<Rightarrow> Inr (n = 0)
      | None \<Rightarrow> if is_float v then Inl Unmodelled else Inr False)"

text \<open>The \<^verbatim>\<open>if\<close>/\<^verbatim>\<open>elif\<close> chain of \<^verbatim>\<open>EventHandler._copy\<close>: the body and the icon, before
  the wipe suffix.  \<open>sz\<close> is the formatted \<^verbatim>\<open>sent_size\<close> computed on entry.\<close>

definition copy_body ::
    "string \<Rightarrow> nat option \<Rightarrow> pyval \<Rightarrow> string \<Rightarrow> (string \<times> string) result" where
  "copy_body paste_shortcut getsize_DATA metadata sz =
     bind (truthy metadata ''malformed_request'') (\<lambda>malformed.
       if malformed then
         bind (formatted metadata ''vmname'') (\<lambda>vm.
           Inr (ERROR_MALFORMED_DATA vm, ''dialog-error''))
       else
     bind (bind (truthy metadata ''qrexec_clipboard'') (\<lambda>q.
             if q then bind (py_getitem metadata ''sent_size'') (\<lambda>s.
                       bind (py_getitem metadata ''buffer_size'') (\<lambda>b. py_ge s b))
             else Inr False)) (\<lambda>truncated.
       if truncated then
         bind (formatted metadata ''vmname'') (\<lambda>vm.
           Inr (WARNING_POSSIBLE_TRUNCATION vm sz, ''dialog-warning''))
       else
     bind (truthy metadata ''oversized_request'') (\<lambda>oversized.
       if oversized then
         bind (py_getitem metadata ''vmname'') (\<lambda>v.
         bind (py_getitem metadata ''buffer_size'') (\<lambda>b.
         bind (clipboard_formatted_size getsize_DATA b) (\<lambda>limit.
         bind (py_str v) (\<lambda>vm.
           Inr (ERROR_OVERSIZED_DATA vm sz limit, ''dialog-error'')))))
       else
     bind (bind (truthy metadata ''successful'') (\<lambda>ok.
             if ok then bind (truthy metadata ''cleared'') (\<lambda>c.
                        if c then bind (py_getitem metadata ''sent_size'') py_eq_zero
                        else Inr False)
             else Inr False)) (\<lambda>empty.
       if empty then
         bind (formatted metadata ''vmname'') (\<lambda>vm.
           Inr (WARNING_EMPTY_CLIPBOARD vm, ''dialog-warning''))
       else
     bind (truthy metadata ''successful'') (\<lambda>ok.
       if \<not> ok then
         bind (formatted metadata ''vmname'') (\<lambda>vm.
           Inr (ERROR_ON_COPY vm, ''dialog-error''))
       else
         bind (formatted metadata ''vmname'') (\<lambda>vm.
           Inr (MSG_COPY_SUCCESS vm sz paste_shortcut, ''dialog-information'')))))))"

text \<open>\<^verbatim>\<open>EventHandler._copy\<close>.  \<open>paste_shortcut\<close> is \<^verbatim>\<open>self.gtk_app.paste_shortcut\<close>.\<close>

definition EventHandler_copy :: "string \<Rightarrow> nat option \<Rightarrow> pyval \<Rightarrow> ui_update result" where
  "EventHandler_copy paste_shortcut getsize_DATA metadata =
     bind (py_getitem metadata ''sent_size'') (\<lambda>sent.
     bind (clipboard_formatted_size getsize_DATA sent) (\<lambda>sz.
     bind (copy_body paste_shortcut getsize_DATA metadata sz) (\<lambda>(body, icon).
     bind (truthy metadata ''cleared'') (\<lambda>wiped.
     bind (py_getitem metadata ''vmname'') (\<lambda>vm.
       update_clipboard_contents vm (PStr sz)
         (if wiped then body @ MSG_WIPED else body) icon)))))"

text \<open>The \<^verbatim>\<open>if\<close>/\<^verbatim>\<open>elif\<close> chain of \<^verbatim>\<open>EventHandler._paste\<close>.\<close>

definition paste_body :: "nat option \<Rightarrow> pyval \<Rightarrow> (string \<times> string) result" where
  "paste_body getsize_DATA metadata =
     bind (bind (truthy metadata ''successful'') (\<lambda>ok.
             if \<not> ok then Inr True else truthy metadata ''malformed_request'')) (\<lambda>failed.
       if failed then
         bind (formatted metadata ''vmname'') (\<lambda>vm.
           Inr (ERROR_ON_PASTE vm @ MSG_WIPED, ''dialog-error''))
       else
     bind (bind (py_haskey metadata ''protocol_version_xside'') (\<lambda>present.
             if present then bind (py_getitem metadata ''protocol_version_xside'') (\<lambda>v.
                               py_ge v (PInt 0x00010008))
             else Inr False)) (\<lambda>modern.
       if modern then
         bind (py_getitem metadata ''sent_size'') (\<lambda>sent.
         bind (clipboard_formatted_size getsize_DATA sent) (\<lambda>sz.
         bind (formatted metadata ''vmname'') (\<lambda>vm.
           Inr (MSG_PASTE_SUCCESS_METADATA sz vm, ''dialog-information''))))
       else Inr (MSG_PASTE_SUCCESS_LEGACY, ''dialog-information'')))"

text \<open>\<^verbatim>\<open>EventHandler._paste\<close>.\<close>

definition EventHandler_paste :: "nat option \<Rightarrow> pyval \<Rightarrow> ui_update result" where
  "EventHandler_paste getsize_DATA metadata =
     bind (paste_body getsize_DATA metadata) (\<lambda>(body, icon).
       update_clipboard_contents PNone (PInt 0) body icon)"

subsection \<open>Well-typed metadata\<close>

text \<open>
  The fields the classifier reads, typed.  A record is turned into the dict the
  classifier receives by \<open>metadata_dict\<close>; the flags are written either as Python
  booleans (as the legacy synthesis does) or as the integers 0 and 1 (as the metadata
  files do).  The protocol versions are present in the modern format only.
\<close>

record TransferMetadata =
  vmname :: string
  copy_action :: bool
  paste_action :: bool
  sent_size :: int
  cleared :: bool
  qrexec_clipboard :: bool
  malformed_request :: bool
  oversized_request :: bool
  buffer_size :: int
  successful :: bool
  protocol_version_xside :: "int option"
  protocol_version_vmside :: "int option"

datatype flag_encoding = AsBool | AsInt

fun flag :: "flag_encoding \<Rightarrow> bool \<Rightarrow> pyval" where
  "flag AsBool b = PBool b"
| "flag AsInt b = PInt (if b then 1 else 0)"

definition optional_item :: "string \<Rightarrow> int option \<Rightarrow> (string \<times> pyval) list" where
  "optional_item k v = (case v of None \<Rightarrow> [] | Some n \<Rightarrow> [(k, PInt n)])"

definition metadata_dict :: "flag_encoding \<Rightarrow> TransferMetadata \<Rightarrow> pyval" where
  "metadata_dict enc m =
     PDict ([(''vmname'', PStr (vmname m)),
             (''copy_action'', flag enc (copy_action m)),
             (''paste_action'', flag enc (paste_action m)),
             (''sent_size'', PInt (sent_size m)),
             (''cleared'', flag enc (cleared m)),
             (''qrexec_clipboard'', flag enc (qrexec_clipboard m)),
             (''malformed_request'', flag enc (malformed_request m)),
             (''oversized_request'', flag enc (oversized_request m)),
             (''buffer_size'', PInt (buffer_size m)),
             (''successful'', flag enc (successful m))]
            @ optional_item ''protocol_version_xside'' (protocol_version_xside m)
            @ optional_item ''protocol_version_vmside'' (protocol_version_vmside m))"

text \<open>A size, and the size of the payload file when there is one, below \<open>2^53\<close>.\<close>

definition exact_size :: "nat option \<Rightarrow> int \<Rightarrow> bool" where
  "exact_size getsize n = (n < 2 ^ 53 \<and> (case getsize of None \<Rightarrow> True | Some k \<Rightarrow> k < 2 ^ 53))"

text \<open>
  The integers \<^verbatim>\<open>clipboard_formatted_size\<close> formats without raising: those \<^verbatim>\<open>str\<close>
  prints and the conversion to a double accepts.  A size of 0 stands for the size of the
  payload file, which is formatted in its place.
\<close>

definition int_formats :: "int \<Rightarrow> bool" where
  "int_formats n = (\<bar>n\<bar> < str_digits_limit \<and> n < double_overflow)"

definition formattable :: "nat option \<Rightarrow> int \<Rightarrow> bool" where
  "formattable getsize n =
     (if n = 0 then (case getsize of None \<Rightarrow> True | Some k \<Rightarrow> int_formats (int k))
      else int_formats n)"

text \<open>An example used below: the metadata of a copy of an empty clipboard from the qube
  \<open>work\<close>, under protocol 1.8.\<close>

definition empty_copy :: TransferMetadata where
  "empty_copy =
     \<lparr>vmname = ''work'', copy_action = True, paste_action = False, sent_size = 0,
      cleared = True, qrexec_clipboard = False, malformed_request = False,
      oversized_request = False, buffer_size = 256000, successful = True,
      protocol_version_xside = Some 65544, protocol_version_vmside = Some 65544\<rparr>"

section \<open>Decoding JSON\<close>

text \<open>
  \<^verbatim>\<open>json.loads\<close> as CPython's scanner implements it, on a text of ASCII characters (the
  handler opens the metadata file with \<^verbatim>\<open>encoding="ascii"\<close>).  Every syntax error is the
  one exception \<^verbatim>\<open>JSONDecodeError\<close>.  An integer literal of more than 4300 digits raises
  ValueError (the default limit of CPython 3.11 on integer string conversion).  The
  recursion of the scanner is made structural by a counter that starts above twice the
  length of the text; two nested calls consume at least one character, so the counter is
  never exhausted (lemma \<open>json_loads_in_model\<close>).  CPython raises RecursionError for a
  text nested deeper than its recursion limit; the model decodes to any depth.
\<close>

definition dq :: char where
  "dq = CHR 0x22"

definition backslash :: char where
  "backslash = CHR 0x5C"

definition is_ws :: "char \<Rightarrow> bool" where
  "is_ws c = (c \<in> set [CHR 0x20, CHR 0x09, CHR 0x0A, CHR 0x0D])"

definition skip_ws :: "string \<Rightarrow> string" where
  "skip_ws s = dropWhile is_ws s"

definition is_digit :: "char \<Rightarrow> bool" where
  "is_digit c = (c \<in> set ''0123456789'')"

definition digit_val :: "char \<Rightarrow> nat" where
  "digit_val c = of_char c - 48"

definition decimal :: "string \<Rightarrow> nat" where
  "decimal ds = foldl (\<lambda>a c. 10 * a + digit_val c) 0 ds"

definition hex_val :: "char \<Rightarrow> nat option" where
  "hex_val c =
     (if is_digit c then Some (of_char c - 48)
      else if c \<in> set ''abcdef'' then Some (of_char c - 87)
      else if c \<in> set ''ABCDEF'' then Some (of_char c - 55)
      else None)"

text \<open>The four hexadecimal digits of a \<^verbatim>\<open>\uXXXX\<close> escape.\<close>

definition hex4 :: "char \<Rightarrow> char \<Rightarrow> char \<Rightarrow> char \<Rightarrow> nat option" where
  "hex4 a b c d =
     (case (hex_val a, hex_val b, hex_val c, hex_val d) of
        (Some w, Some x, Some y, Some z) \<Rightarrow> Some (((w * 16 + x) * 16 + y) * 16 + z)
      | _ \<Rightarrow> None)"

definition byte :: "nat \<Rightarrow> char" where
  "byte n = Char (odd n) (odd (n div 2)) (odd (n div 4)) (odd (n div 8))
                 (odd (n div 16)) (odd (n div 32)) (odd (n div 64)) (odd (n div 128))"

text \<open>The UTF-8 bytes that represent a code point in a \<open>PStr\<close>.\<close>

definition utf8 :: "nat \<Rightarrow> string" where
  "utf8 cp =
     (if cp < 0x80 then [byte cp]
      else if cp < 0x800 then [byte (0xC0 + cp div 64), byte (0x80 + cp mod 64)]
      else if cp < 0x10000 then
        [byte (0xE0 + cp div 4096), byte (0x80 + cp div 64 mod 64), byte (0x80 + cp mod 64)]
      else
        [byte (0xF0 + cp div 262144), byte (0x80 + cp div 4096 mod 64),
         byte (0x80 + cp div 64 mod 64), byte (0x80 + cp mod 64)])"

definition simple_escape :: "char \<Rightarrow> char option" where
  "simple_escape e =
     (if e = dq then Some dq
      else if e = backslash then Some backslash
      else if e = CHR ''/'' then Some CHR ''/''
      else if e = CHR ''b'' then Some (CHR 0x08)
      else if e = CHR ''f'' then Some (CHR 0x0C)
      else if e = CHR ''n'' then Some (CHR 0x0A)
      else if e = CHR ''r'' then Some (CHR 0x0D)
      else if e = CHR ''t'' then Some (CHR 0x09)
      else None)"

text \<open>The low half of a surrogate pair, when the text continues with one.\<close>

definition low_surrogate :: "string \<Rightarrow> (nat \<times> string) option" where
  "low_surrogate s =
     (case s of
        b # u # h1 # h2 # h3 # h4 # rest \<Rightarrow>
          if b = backslash \<and> u = CHR ''u'' then
            (case hex4 h1 h2 h3 h4 of
               Some lo \<Rightarrow> if 0xDC00 \<le> lo \<and> lo \<le> 0xDFFF then Some (lo, rest) else None
             | None \<Rightarrow> None)
          else None
      | _ \<Rightarrow> None)"

text \<open>\<^verbatim>\<open>scanstring\<close> in strict mode, from the character after the opening quote: the
  decoded string and the text after the closing quote.  The first argument counts the
  characters that may still be consumed.\<close>

fun scanstring :: "nat \<Rightarrow> string \<Rightarrow> string \<Rightarrow> (string \<times> string) result" where
  "scanstring 0 s acc = Inl JSONDecodeError"
| "scanstring (Suc n) [] acc = Inl JSONDecodeError"
| "scanstring (Suc n) (c # cs) acc =
     (if c = dq then Inr (acc, cs)
      else if c = backslash then
        (case cs of
           [] \<Rightarrow> Inl JSONDecodeError
         | e # rest \<Rightarrow>
             if e = CHR ''u'' then
               (case rest of
                  h1 # h2 # h3 # h4 # rest' \<Rightarrow>
                    (case hex4 h1 h2 h3 h4 of
                       None \<Rightarrow> Inl JSONDecodeError
                     | Some cp \<Rightarrow>
                         (case (if 0xD800 \<le> cp \<and> cp \<le> 0xDBFF then low_surrogate rest'
                                else None) of
                            Some (lo, rest'') \<Rightarrow>
                              scanstring n rest''
                                (acc @ utf8 (0x10000 + (cp - 0xD800) * 1024 + (lo - 0xDC00)))
                          | None \<Rightarrow> scanstring n rest' (acc @ utf8 cp)))
                | _ \<Rightarrow> Inl JSONDecodeError)
             else
               (case simple_escape e of
                  None \<Rightarrow> Inl JSONDecodeError
                | Some ch \<Rightarrow> scanstring n rest (acc @ [ch])))
      else if (of_char c :: nat) < 0x20 then Inl JSONDecodeError
      else scanstring n cs (acc @ [c]))"

text \<open>The fraction \<^verbatim>\<open>\.[0-9]+\<close> and the exponent \<^verbatim>\<open>[eE][-+]?[0-9]+\<close> of a number, when
  present: the part matched and the rest.\<close>

definition match_frac :: "string \<Rightarrow> string \<times> string" where
  "match_frac s =
     (case s of
        p # d # _ \<Rightarrow>
          if p = CHR ''.'' \<and> is_digit d
          then (p # takeWhile is_digit (tl s), dropWhile is_digit (tl s))
          else ([], s)
      | _ \<Rightarrow> ([], s))"

definition match_exp :: "string \<Rightarrow> string \<times> string" where
  "match_exp s =
     (case s of
        [] \<Rightarrow> ([], s)
      | e # r \<Rightarrow>
          if e = CHR ''e'' \<or> e = CHR ''E'' then
            (let sgn = (case r of c # _ \<Rightarrow> if c = CHR ''-'' \<or> c = CHR ''+'' then [c] else []
                        | [] \<Rightarrow> []);
                 r' = drop (length sgn) r;
                 ds = takeWhile is_digit r'
             in if ds = [] then ([], s) else (e # sgn @ ds, dropWhile is_digit r'))
          else ([], s))"

text \<open>A number at the head of the text: \<^verbatim>\<open>-?(0|[1-9][0-9]*)\<close>, then fraction and
  exponent.  A literal with a fraction or an exponent is a float.\<close>

definition match_number :: "string \<Rightarrow> (pyval \<times> string) result" where
  "match_number s =
     (let neg = (case s of c # _ \<Rightarrow> c = CHR ''-'' | [] \<Rightarrow> False);
          s1 = (if neg then tl s else s)
      in case s1 of
           [] \<Rightarrow> Inl JSONDecodeError
         | d # r \<Rightarrow>
             if \<not> is_digit d then Inl JSONDecodeError
             else
               let ip = (if d = CHR ''0'' then [d] else d # takeWhile is_digit r);
                   s2 = drop (length ip) s1;
                   (frac, s3) = match_frac s2;
                   (ex, s4) = match_exp s3
               in if frac = [] \<and> ex = [] then
                    if length ip > 4300 then Inl ValueError
                    else Inr (PInt (if neg then - int (decimal ip) else int (decimal ip)), s4)
                  else Inr (PFloat ((if neg then ''-'' else []) @ ip @ frac @ ex), s4))"

definition starts_with :: "string \<Rightarrow> string \<Rightarrow> bool" where
  "starts_with p s = (take (length p) s = p)"

text \<open>
  \<^verbatim>\<open>scan_once\<close>, \<^verbatim>\<open>JSONObject\<close> and \<^verbatim>\<open>JSONArray\<close>.  \<open>scan_once\<close> reads one value at
  the head of the text; \<open>parse_object\<close> is the loop over the members of an object, at
  the opening quote of a key; \<open>parse_array\<close> is the loop over the elements of an array,
  at the start of an element.  Each returns the value and the text after it.
\<close>

fun scan_once :: "nat \<Rightarrow> string \<Rightarrow> (pyval \<times> string) result"
and parse_object :: "nat \<Rightarrow> string \<Rightarrow> (string \<times> pyval) list \<Rightarrow> (pyval \<times> string) result"
and parse_array :: "nat \<Rightarrow> string \<Rightarrow> pyval list \<Rightarrow> (pyval \<times> string) result" where
  "scan_once 0 s = Inl Unmodelled"
| "scan_once (Suc n) [] = Inl JSONDecodeError"
| "scan_once (Suc n) (c # cs) =
     (if c = dq then
        bind (scanstring (length cs) cs []) (\<lambda>(str, rest). Inr (PStr str, rest))
      else if c = CHR ''{'' then
        (case skip_ws cs of
           [] \<Rightarrow> Inl JSONDecodeError
         | d # rest \<Rightarrow> if d = CHR ''}'' then Inr (PDict [], rest)
                       else parse_object n (d # rest) [])
      else if c = CHR ''['' then
        (case skip_ws cs of
           [] \<Rightarrow> Inl JSONDecodeError
         | d # rest \<Rightarrow> if d = CHR '']'' then Inr (PList [], rest)
                       else parse_array n (d # rest) [])
      else if starts_with ''null'' (c # cs) then Inr (PNone, drop 4 (c # cs))
      else if starts_with ''true'' (c # cs) then Inr (PBool True, drop 4 (c # cs))
      else if starts_with ''false'' (c # cs) then Inr (PBool False, drop 5 (c # cs))
      else if starts_with ''NaN'' (c # cs) then Inr (PFloat ''NaN'', drop 3 (c # cs))
      else if starts_with ''Infinity'' (c # cs) then Inr (PFloat ''Infinity'', drop 8 (c # cs))
      else if starts_with ''-Infinity'' (c # cs) then Inr (PFloat ''-Infinity'', drop 9 (c # cs))
      else match_number (c # cs))"
| "parse_object 0 s acc = Inl Unmodelled"
| "parse_object (Suc n) [] acc = Inl JSONDecodeError"
| "parse_object (Suc n) (c # cs) acc =
     (if c \<noteq> dq then Inl JSONDecodeError
      else
        bind (scanstring (length cs) cs []) (\<lambda>(key, s1).
          case skip_ws s1 of
            [] \<Rightarrow> Inl JSONDecodeError
          | colon # s2 \<Rightarrow>
              if colon \<noteq> CHR '':'' then Inl JSONDecodeError
              else
                bind (scan_once n (skip_ws s2)) (\<lambda>(v, s3).
                  case skip_ws s3 of
                    [] \<Rightarrow> Inl JSONDecodeError
                  | e # s4 \<Rightarrow>
                      if e = CHR ''}'' then Inr (PDict (acc @ [(key, v)]), s4)
                      else if e = CHR '','' then parse_object n (skip_ws s4) (acc @ [(key, v)])
                      else Inl JSONDecodeError)))"
| "parse_array 0 s acc = Inl Unmodelled"
| "parse_array (Suc n) s acc =
     bind (scan_once n s) (\<lambda>(v, s1).
       case skip_ws s1 of
         [] \<Rightarrow> Inl JSONDecodeError
       | e # s2 \<Rightarrow>
           if e = CHR '']'' then Inr (PList (acc @ [v]), s2)
           else if e = CHR '','' then parse_array n (skip_ws s2) (acc @ [v])
           else Inl JSONDecodeError)"

text \<open>\<^verbatim>\<open>json.loads(s)\<close>: one value, with nothing but whitespace around it.\<close>

definition json_loads :: "string \<Rightarrow> pyval result" where
  "json_loads s =
     bind (scan_once (Suc (2 * length s)) (skip_ws s)) (\<lambda>(v, rest).
       if skip_ws rest = [] then Inr v else Inl JSONDecodeError)"

section \<open>The staging files\<close>

text \<open>
  The files under \<^verbatim>\<open>/var/run/qubes/\<close>: \<^verbatim>\<open>qubes-clipboard.bin\<close> (\<open>DATA\<close>), its
  \<^verbatim>\<open>.metadata\<close>, \<^verbatim>\<open>.source\<close> (\<open>FROM\<close>) and \<^verbatim>\<open>.xevent\<close> companions.  A file has its bytes,
  the modification time \<^verbatim>\<open>os.path.getmtime\<close> reports, and whether \<^verbatim>\<open>open\<close> succeeds on it; a
  path that holds no file maps to \<open>None\<close>.
\<close>

datatype path = DATA | METADATA | FROM | XEVENT

record staged_file =
  contents :: string
  mtime :: real
  readable :: bool

type_synonym staging = "path \<Rightarrow> staged_file option"

text \<open>A readable file with the given bytes and modification time, and the staging
  directory with no file in it.\<close>

definition regular_file :: "string \<Rightarrow> real \<Rightarrow> staged_file" where
  "regular_file c t = \<lparr>contents = c, mtime = t, readable = True\<rparr>"

definition no_files :: staging where
  "no_files = (\<lambda>p. None)"

text \<open>Universal newlines, as text mode applies them on reading.\<close>

fun universal_newlines :: "string \<Rightarrow> string" where
  "universal_newlines [] = []"
| "universal_newlines [c] = [if c = CHR 0x0D then CHR 0x0A else c]"
| "universal_newlines (c # d # ds) =
     (if c = CHR 0x0D
      then CHR 0x0A # (if d = CHR 0x0A then universal_newlines ds else universal_newlines (d # ds))
      else c # universal_newlines (d # ds))"

definition is_ascii :: "string \<Rightarrow> bool" where
  "is_ascii s = list_all (\<lambda>c. (of_char c :: nat) < 128) s"

text \<open>\<^verbatim>\<open>open(p, "r", encoding="ascii")\<close> followed by \<^verbatim>\<open>read()\<close>.\<close>

definition read_text :: "staged_file \<Rightarrow> string result" where
  "read_text f =
     (if \<not> readable f then Inl OSError
      else if \<not> is_ascii (contents f) then Inl UnicodeDecodeError
      else Inr (universal_newlines (contents f)))"

text \<open>\<^verbatim>\<open>open(p, "r", encoding="ascii")\<close> followed by \<^verbatim>\<open>readline()\<close>.  CPython decodes a
  text file in chunks of 8192 bytes; a file within one chunk is decoded as a whole, and
  the model goes no further.\<close>

definition read_line :: "staged_file \<Rightarrow> string result" where
  "read_line f =
     (if \<not> readable f then Inl OSError
      else if length (contents f) > 8192 then Inl Unmodelled
      else if \<not> is_ascii (contents f) then Inl UnicodeDecodeError
      else let text = universal_newlines (contents f)
           in Inr (takeWhile (\<lambda>c. c \<noteq> CHR 0x0A) text @
                   (if CHR 0x0A \<in> set text then [CHR 0x0A] else [])))"

text \<open>\<^verbatim>\<open>line.strip("\n")\<close>.\<close>

definition strip_newlines :: "string \<Rightarrow> string" where
  "strip_newlines s =
     rev (dropWhile (\<lambda>c. c = CHR 0x0A) (rev (dropWhile (\<lambda>c. c = CHR 0x0A) s)))"

text \<open>\<^verbatim>\<open>os.path.getsize(DATA)\<close>, \<open>None\<close> for OSError.\<close>

definition getsize_DATA :: "staging \<Rightarrow> nat option" where
  "getsize_DATA fs = map_option (\<lambda>f. length (contents f)) (fs DATA)"

section \<open>The metadata decoder\<close>

text \<open>The \<^verbatim>\<open>else\<close> branch of \<^verbatim>\<open>process_IN_CLOSE_WRITE\<close>: metadata synthesised from the
  \<^verbatim>\<open>.source\<close> file and the size of the payload.  The items are in the order of the
  assignments.\<close>

definition legacy_metadata :: "staging \<Rightarrow> pyval result" where
  "legacy_metadata fs =
     (case fs FROM of
        None \<Rightarrow> Inl OSError
      | Some vm_from_file \<Rightarrow>
          bind (read_line vm_from_file) (\<lambda>line.
            let vm = strip_newlines line;
                copy = (vm \<noteq> []);
                paste = (vm = []);
                sent = (case getsize_DATA fs of None \<Rightarrow> 0 | Some n \<Rightarrow> int n)
            in Inr (PDict
                 [(''vmname'', PStr vm),
                  (''copy_action'', PBool copy),
                  (''paste_action'', PBool paste),
                  (''sent_size'', PInt sent),
                  (''cleared'', PBool (sent = 0)),
                  (''qrexec_clipboard'', PBool False),
                  (''malformed_request'', PBool False),
                  (''oversized_request'', PBool (sent \<ge> 65000)),
                  (''buffer_size'', PInt 65000),
                  (''successful'', PBool (\<not> (copy \<and> sent = 0)))])))"

text \<open>The \<^verbatim>\<open>try\<close> block: the metadata file parsed as JSON.  \<open>None\<close> is the \<^verbatim>\<open>return\<close> of
  the two \<^verbatim>\<open>except\<close> clauses; any other exception propagates.\<close>

definition modern_metadata :: "staged_file \<Rightarrow> pyval option result" where
  "modern_metadata metadata_file =
     (case read_text metadata_file of
        Inl e \<Rightarrow> if e = OSError then Inr None else Inl e
      | Inr text \<Rightarrow>
          (case json_loads text of
             Inl e \<Rightarrow> if e = JSONDecodeError then Inr None else Inl e
           | Inr v \<Rightarrow> Inr (Some v)))"

text \<open>The \<^verbatim>\<open>with appviewer_lock():\<close> block of \<^verbatim>\<open>process_IN_CLOSE_WRITE\<close>; the lock
  is released on every way out of the block.  \<^verbatim>\<open>os.path.getmtime(DATA)\<close> raises OSError
  when the payload file is missing, outside any \<^verbatim>\<open>try\<close>.\<close>

definition decode :: "staging \<Rightarrow> pyval option result" where
  "decode fs =
     (case fs METADATA of
        None \<Rightarrow> map_sum id Some (legacy_metadata fs)
      | Some metadata_file \<Rightarrow>
          (case fs DATA of
             None \<Rightarrow> Inl OSError
           | Some data_file \<Rightarrow>
               if mtime metadata_file \<ge> mtime data_file
               then modern_metadata metadata_file
               else map_sum id Some (legacy_metadata fs)))"

text \<open>Legacy mode: no metadata file, or one older than the payload file.\<close>

definition legacy_mode :: "staging \<Rightarrow> bool" where
  "legacy_mode fs =
     (case fs METADATA of
        None \<Rightarrow> True
      | Some metadata_file \<Rightarrow>
          (case fs DATA of
             None \<Rightarrow> False
           | Some data_file \<Rightarrow> mtime metadata_file < mtime data_file))"

text \<open>The outcome of the dispatch at the end of \<^verbatim>\<open>process_IN_CLOSE_WRITE\<close>.\<close>

datatype classification = Copy | Paste | Ignored

definition dispatch :: "pyval \<Rightarrow> classification result" where
  "dispatch metadata =
     bind (truthy metadata ''copy_action'') (\<lambda>c.
       if c then Inr Copy
       else bind (truthy metadata ''paste_action'') (\<lambda>p.
              if p then Inr Paste else Inr Ignored))"

text \<open>\<^verbatim>\<open>EventHandler.process_IN_CLOSE_WRITE\<close>: the update of the user interface, \<open>None\<close>
  when the event is dropped or ignored, or the exception that leaves the handler.\<close>

definition process_IN_CLOSE_WRITE :: "string \<Rightarrow> staging \<Rightarrow> ui_update option result" where
  "process_IN_CLOSE_WRITE paste_shortcut fs =
     bind (decode fs) (\<lambda>decoded.
       case decoded of
         None \<Rightarrow> Inr None
       | Some metadata \<Rightarrow>
           bind (dispatch metadata) (\<lambda>cls.
             case cls of
               Copy \<Rightarrow> map_sum id Some (EventHandler_copy paste_shortcut (getsize_DATA fs) metadata)
             | Paste \<Rightarrow> map_sum id Some (EventHandler_paste (getsize_DATA fs) metadata)
             | Ignored \<Rightarrow> Inr None))"

text \<open>
  For the examples below: the text of a metadata file that holds a record as one strict
  JSON object, the flags written as 0 and 1, the members in the order of
  \<open>metadata_dict\<close>.
\<close>

definition json_member :: "string \<Rightarrow> string \<Rightarrow> string" where
  "json_member k v = [dq] @ k @ [dq] @ '':'' @ v"

definition json_flag :: "bool \<Rightarrow> string" where
  "json_flag b = (if b then ''1'' else ''0'')"

definition optional_member :: "string \<Rightarrow> int option \<Rightarrow> string" where
  "optional_member k v = (case v of None \<Rightarrow> [] | Some n \<Rightarrow> '','' @ json_member k (str_int n))"

definition metadata_text :: "TransferMetadata \<Rightarrow> string" where
  "metadata_text m =
     ''{'' @ json_member ''vmname'' ([dq] @ vmname m @ [dq]) @
     '','' @ json_member ''copy_action'' (json_flag (copy_action m)) @
     '','' @ json_member ''paste_action'' (json_flag (paste_action m)) @
     '','' @ json_member ''sent_size'' (str_int (sent_size m)) @
     '','' @ json_member ''cleared'' (json_flag (cleared m)) @
     '','' @ json_member ''qrexec_clipboard'' (json_flag (qrexec_clipboard m)) @
     '','' @ json_member ''malformed_request'' (json_flag (malformed_request m)) @
     '','' @ json_member ''oversized_request'' (json_flag (oversized_request m)) @
     '','' @ json_member ''buffer_size'' (str_int (buffer_size m)) @
     '','' @ json_member ''successful'' (json_flag (successful m)) @
     optional_member ''protocol_version_xside'' (protocol_version_xside m) @
     optional_member ''protocol_version_vmside'' (protocol_version_vmside m) @
     ''}'' @ [CHR 0x0A]"

section \<open>The writers of the staging files\<close>

text \<open>
  What a writer does to the staging directory, in order: taking and releasing the lock
  on \<^verbatim>\<open>appviewer.lock\<close> (\<^verbatim>\<open>with appviewer_lock():\<close>), and writing a file.  A run of a
  writer is the list of its operations, the notification it sends, and the exception
  that leaves it, if any.  The store holds every write: a write that fails in the file
  system is not modelled.
\<close>

datatype fs_op = LockAcquire | LockRelease | WriteFile path string

record writer_run =
  ops :: "fs_op list"
  notified :: "(string \<times> string) option"
  raised :: "abort option"

text \<open>One line \<^verbatim>\<open>"key":value,\n\<close> of a metadata file.\<close>

definition metadata_line :: "string \<Rightarrow> string \<Rightarrow> string" where
  "metadata_line k v = [dq] @ k @ [dq] @ '':'' @ v @ '','' @ [CHR 0x0A]"

text \<open>The text \<^verbatim>\<open>copy_dom0_clipboard\<close> writes to the metadata file: \<^verbatim>\<open>str.format\<close> turns
  the doubled braces of the template into single ones.\<close>

definition dom0_metadata :: "int \<Rightarrow> nat \<Rightarrow> string" where
  "dom0_metadata xevent_timestamp sent =
     ''{'' @ [CHR 0x0A] @
     metadata_line ''vmname'' ([dq] @ ''dom0'' @ [dq]) @
     metadata_line ''xevent_timestamp'' (str_int xevent_timestamp) @
     metadata_line ''successful'' ''1'' @
     metadata_line ''copy_action'' ''1'' @
     metadata_line ''paste_action'' ''0'' @
     metadata_line ''malformed_request'' ''0'' @
     metadata_line ''cleared'' ''0'' @
     metadata_line ''qrexec_clipboard'' ''0'' @
     metadata_line ''sent_size'' (str_nat sent) @
     metadata_line ''buffer_size'' ''256000'' @
     metadata_line ''protocol_version_xside'' ''65544'' @
     metadata_line ''protocol_version_vmside'' ''65544'' @
     ''}'' @ [CHR 0x0A]"

text \<open>\<^verbatim>\<open>NotificationApp.copy_dom0_clipboard\<close>.  \<open>text\<close> is what
  \<^verbatim>\<open>clipboard.wait_for_text()\<close> returns, as UTF-8 bytes; the two integers are the two
  readings of \<^verbatim>\<open>Gtk.get_current_event_time()\<close>.\<close>

definition copy_dom0_clipboard :: "string option \<Rightarrow> int \<Rightarrow> int \<Rightarrow> writer_run" where
  "copy_dom0_clipboard text t1 t2 =
     (case text of
        None \<Rightarrow> \<lparr>ops = [], notified = Some (''Dom0 clipboard is empty!'', ''dialog-information''),
                 raised = None\<rparr>
      | Some txt \<Rightarrow>
          if txt = [] then
            \<lparr>ops = [], notified = Some (''Dom0 clipboard is empty!'', ''dialog-information''),
             raised = None\<rparr>
          else
            \<lparr>ops = [LockAcquire,
                    WriteFile DATA txt,
                    WriteFile FROM ''dom0'',
                    WriteFile XEVENT (str_int t1),
                    WriteFile METADATA (dom0_metadata t2 (length txt)),
                    LockRelease],
             notified = None, raised = None\<rparr>)"

text \<open>The text \<^verbatim>\<open>_copy_to_global_clipboard\<close> of the virtual browser writes to the
  metadata file.  The first and the last literal of the concatenation are not f-strings
  and no \<^verbatim>\<open>format\<close> is applied, so their doubled braces are written as they are.\<close>

definition browser_metadata :: "string \<Rightarrow> nat \<Rightarrow> string" where
  "browser_metadata vm sent =
     ''{{'' @ [CHR 0x0A] @
     metadata_line ''vmname'' ([dq] @ vm @ [dq]) @
     metadata_line ''xevent_timestamp'' ''0'' @
     metadata_line ''successful'' ''1'' @
     metadata_line ''copy_action'' ''1'' @
     metadata_line ''paste_action'' ''0'' @
     metadata_line ''malformed_request'' ''0'' @
     metadata_line ''cleared'' ''0'' @
     metadata_line ''qrexec_clipboard'' ''0'' @
     metadata_line ''sent_size'' (str_nat sent) @
     metadata_line ''buffer_size'' ''2048'' @
     metadata_line ''protocol_version_xside'' ''65544'' @
     metadata_line ''protocol_version_vmside'' ''65544'' @
     ''}}'' @ [CHR 0x0A]"

text \<open>\<^verbatim>\<open>_copy_to_global_clipboard(url, vmname)\<close> of \<^verbatim>\<open>virtual_browser.py\<close>, both
  strings as UTF-8 bytes.  The source and metadata files are opened with
  \<^verbatim>\<open>encoding="ascii"\<close>: a name that is not ASCII raises UnicodeEncodeError at the write to
  the source file, which \<^verbatim>\<open>open\<close> has emptied by then.\<close>

definition copy_to_global_clipboard :: "string \<Rightarrow> string \<Rightarrow> int \<Rightarrow> writer_run" where
  "copy_to_global_clipboard url vm t1 =
     (if \<not> is_ascii vm then
        \<lparr>ops = [WriteFile DATA url, WriteFile FROM []], notified = None,
         raised = Some UnicodeEncodeError\<rparr>
      else
        \<lparr>ops = [WriteFile DATA url,
                WriteFile FROM vm,
                WriteFile XEVENT (str_int t1),
                WriteFile METADATA (browser_metadata vm (length url))],
         notified = None, raised = None\<rparr>)"

text \<open>The staging files after a run; \<open>clock p\<close> is the time at which the file \<open>p\<close> is
  written.\<close>

fun perform :: "(path \<Rightarrow> real) \<Rightarrow> fs_op list \<Rightarrow> staging \<Rightarrow> staging" where
  "perform clock [] fs = fs"
| "perform clock (WriteFile p c # r) fs =
     perform clock r (fs(p := Some (regular_file c (clock p))))"
| "perform clock (LockAcquire # r) fs = perform clock r fs"
| "perform clock (LockRelease # r) fs = perform clock r fs"

text \<open>The locking discipline: every write of the run happens while the lock is held.
  The first argument tells whether the lock is held before the run.\<close>

fun writes_locked :: "bool \<Rightarrow> fs_op list \<Rightarrow> bool" where
  "writes_locked held [] = True"
| "writes_locked held (LockAcquire # r) = writes_locked True r"
| "writes_locked held (LockRelease # r) = writes_locked False r"
| "writes_locked held (WriteFile p c # r) = (held \<and> writes_locked held r)"

definition written :: "fs_op list \<Rightarrow> path list" where
  "written r = concat (map (\<lambda>op. case op of WriteFile p _ \<Rightarrow> [p] | _ \<Rightarrow> []) r)"

section \<open>The watch controller\<close>

text \<open>
  \<^verbatim>\<open>pyinotify.WatchManager\<close>, as far as the widget uses it: the watches, each with its
  descriptor, path and event mask.  \<^verbatim>\<open>add_watch\<close> returns the dict from the path to the
  new descriptor; adding a watch always succeeds here.
\<close>

datatype event_mask = IN_CREATE | ALL_EVENTS

record watch_manager =
  watches :: "(int \<times> string \<times> event_mask) list"
  next_wd :: int

definition add_watch ::
    "watch_manager \<Rightarrow> string \<Rightarrow> event_mask \<Rightarrow> watch_manager \<times> (string \<times> int) list" where
  "add_watch m p events =
     (m\<lparr>watches := watches m @ [(next_wd m, p, events)], next_wd := next_wd m + 1\<rparr>,
      [(p, next_wd m)])"

definition rm_watch :: "watch_manager \<Rightarrow> int \<Rightarrow> watch_manager" where
  "rm_watch m wd = m\<lparr>watches := filter (\<lambda>(w, _, _). w \<noteq> wd) (watches m)\<rparr>"

definition FROM_path :: string where
  "FROM_path = ''/var/run/qubes/qubes-clipboard.bin.source''"

definition FROM_DIR :: string where
  "FROM_DIR = ''/var/run/qubes/''"

text \<open>The part of \<^verbatim>\<open>NotificationApp\<close> the watch controller uses.\<close>

record notification_app =
  wm :: watch_manager
  temporary_watch :: "(string \<times> int) list option"

text \<open>\<^verbatim>\<open>NotificationApp.setup_watcher\<close>.\<close>

definition setup_watcher :: "notification_app \<Rightarrow> notification_app" where
  "setup_watcher app =
     (let m = (case temporary_watch app of
                 None \<Rightarrow> wm app
               | Some d \<Rightarrow> if d \<noteq> [] then foldl rm_watch (wm app) (map snd d) else wm app)
      in app\<lparr>wm := fst (add_watch m FROM_path ALL_EVENTS)\<rparr>)"

text \<open>The end of \<^verbatim>\<open>NotificationApp.__init__\<close>; the first argument is
  \<^verbatim>\<open>os.path.exists(FROM)\<close>.\<close>

definition init_watch :: "bool \<Rightarrow> watch_manager \<Rightarrow> notification_app" where
  "init_watch from_exists m =
     (if \<not> from_exists then
        (let (m', d) = add_watch m FROM_DIR IN_CREATE
         in \<lparr>wm = m', temporary_watch = Some d\<rparr>)
      else setup_watcher \<lparr>wm = m, temporary_watch = None\<rparr>)"

text \<open>The two states of the controller.  Unarmed: the only watch is the one on the
  directory, for creations, and \<^verbatim>\<open>temporary_watch\<close> holds it.  Armed: the only watch is
  the one on the source file, for all events.\<close>

definition unarmed :: "notification_app \<Rightarrow> bool" where
  "unarmed app =
     (case temporary_watch app of
        Some [(p, wd)] \<Rightarrow> p = FROM_DIR \<and> watches (wm app) = [(wd, FROM_DIR, IN_CREATE)]
      | _ \<Rightarrow> False)"

definition armed :: "notification_app \<Rightarrow> bool" where
  "armed app = (map snd (watches (wm app)) = [(FROM_path, ALL_EVENTS)])"

text \<open>\<^verbatim>\<open>EventHandler.process_IN_CREATE\<close>, for an event with the given \<^verbatim>\<open>pathname\<close>: the
  application afterwards, the results of the calls of \<^verbatim>\<open>process_IN_CLOSE_WRITE\<close> made,
  and the exception that leaves the handler, if any.\<close>

record create_outcome =
  app_after :: notification_app
  passes :: "ui_update option result list"
  escaped :: "abort option"

definition process_IN_CREATE ::
    "string \<Rightarrow> staging \<Rightarrow> string \<Rightarrow> notification_app \<Rightarrow> create_outcome" where
  "process_IN_CREATE paste_shortcut fs pathname app =
     (if pathname = FROM_path then
        (case process_IN_CLOSE_WRITE paste_shortcut fs of
           Inl e \<Rightarrow> \<lparr>app_after = app, passes = [Inl e], escaped = Some e\<rparr>
         | Inr u \<Rightarrow> \<lparr>app_after = setup_watcher app, passes = [Inr u], escaped = None\<rparr>)
      else \<lparr>app_after = app, passes = [], escaped = None\<rparr>)"

section \<open>Properties\<close>

lemma floor_log2_small: "n < 2 \<Longrightarrow> floor_log2 n = 0"
  by (simp add: floor_log2.simps)

lemma floor_log2_large: "2 \<le> n \<Longrightarrow> floor_log2 n = Suc (floor_log2 (n div 2))"
  by (subst floor_log2.simps) simp

lemma str_nat_small: "n < 10 \<Longrightarrow> str_nat n = [digit_char n]"
  by (simp add: str_nat.simps)

lemma str_nat_large: "10 \<le> n \<Longrightarrow> str_nat n = str_nat (n div 10) @ [digit_char (n mod 10)]"
  by (subst str_nat.simps) simp

lemmas numeral_eval = str_int_def str_nat_small str_nat_large digit_char_def
  floor_log2_small floor_log2_large

subsection \<open>Size formatting\<close>

lemma floor_log2_less: "n < 2 ^ k \<Longrightarrow> floor_log2 n < max k 1"
proof (induction n arbitrary: k rule: floor_log2.induct)
  case (1 n)
  show ?case
  proof (cases "n < 2")
    case True
    then show ?thesis by (simp add: floor_log2_small)
  next
    case False
    then obtain j where k: "k = Suc j" using 1(2) by (cases k) auto
    with 1(2) have half: "n div 2 < 2 ^ j" by auto
    with 1(1) False have "floor_log2 (n div 2) < max j 1" by simp
    moreover have "j \<noteq> 0" using half False by (cases j) auto
    ultimately show ?thesis using False k by (simp add: floor_log2_large)
  qed
qed

lemma floor_log2_ge: "2 ^ k \<le> n \<Longrightarrow> k \<le> floor_log2 n"
proof (induction k arbitrary: n)
  case 0
  then show ?case by simp
next
  case (Suc k)
  then have "2 ^ k \<le> n div 2" by auto
  then have "k \<le> floor_log2 (n div 2)" by (rule Suc.IH)
  moreover have "(1::nat) \<le> 2 ^ k" by simp
  then have "2 \<le> n" using Suc.prems by (simp only: power_Suc)
  ultimately show ?case by (simp add: floor_log2_large)
qed

lemma limits_ordered:
  "(2::int) ^ 53 < double_overflow" "double_overflow < str_digits_limit"
  "(1024::int) < double_overflow" "(2::int) ^ 53 < str_digits_limit"
proof -
  define x :: int where "x = 2 ^ 970"
  have e: "(970::nat) + 54 = 1024" by simp
  have a: "(2::int) ^ 1024 = x * 2 ^ 54"
    unfolding x_def e [symmetric] by (rule power_add)
  have x: "(2::int) ^ 53 < x"
    unfolding x_def by (rule power_strict_increasing) simp_all
  have d: "double_overflow = x * 2 ^ 54 - x"
    unfolding double_overflow_def a x_def ..
  from x show b: "(2::int) ^ 53 < double_overflow"
    unfolding d by simp
  have "(2::int) ^ 1024 \<le> 10 ^ 1024" by (rule power_mono) simp_all
  also have "\<dots> \<le> (10::int) ^ 4300" by (rule power_increasing) simp_all
  finally have c: "x * 2 ^ 54 \<le> str_digits_limit"
    unfolding str_digits_limit_def a .
  from x have "0 < x" by simp
  with c show l: "double_overflow < str_digits_limit"
    unfolding d by linarith
  from b show "(1024::int) < double_overflow" by simp
  from b l show "(2::int) ^ 53 < str_digits_limit" by linarith
qed


lemma bind_Inr: "bind (Inr v) f = f v" by (simp add: bind_def)
lemma bind_Inl: "bind (Inl e) f = Inl e" by (simp add: bind_def)

lemma py_str_int_small: "\<bar>n\<bar> < 2 ^ 53 \<Longrightarrow> py_str_int n = Inr (str_int n)"
  using limits_ordered(4) by (simp add: py_str_int_def)

lemma to_double_exact: "n < 2 ^ 53 \<Longrightarrow> to_double n = n"
  using floor_log2_less [of n 53] by (simp add: to_double_def)

lemma formatted_size_one: "clipboard_formatted_size d (PInt 1) = Inr ''1 byte''"
  by (simp add: clipboard_formatted_size_def bind_def floor_log2_small)

lemma formatted_size_mib:
  "clipboard_formatted_size d (PInt 1048576) = Inr ''1048576 bytes (1.0 MiB)''"
proof -
  have "to_double 1048576 = 1048576" by (rule to_double_exact) simp
  moreover have "\<not> (1048576::int) \<ge> double_overflow"
    using limits_ordered(1) by simp
  moreover have "py_str_int 1048576 = Inr ''1048576''"
    by (simp add: py_str_int_small numeral_eval)
  ultimately show ?thesis
    by (simp add: clipboard_formatted_size_def bind_def format_1f_def units_def Let_def
        floor_log2_small floor_log2_large str_nat_small str_nat_large digit_char_def)
qed

lemma formatted_size_zero_unreadable: "clipboard_formatted_size None (PInt 0) = Inr ''? bytes''"
  by (simp add: clipboard_formatted_size_def bind_def)

lemma formatted_size_zero_empty: "clipboard_formatted_size (Some 0) (PInt 0) = Inr ''0 bytes''"
  by (simp add: clipboard_formatted_size_def bind_def py_str_int_small numeral_eval)

lemma formatted_size_zero_file:
  "clipboard_formatted_size (Some (Suc k)) (PInt 0) =
   clipboard_formatted_size d (PInt (int (Suc k)))"
  by (simp add: clipboard_formatted_size_def bind_def)

lemma formatted_size_negative:
  "n < 0 \<Longrightarrow> - str_digits_limit < n \<Longrightarrow>
   clipboard_formatted_size d (PInt n) = Inr (str_int n @ '' bytes'')"
  by (simp add: clipboard_formatted_size_def bind_def py_str_int_def)

lemma formatted_size_too_long:
  "n \<noteq> 0 \<Longrightarrow> \<bar>n\<bar> \<ge> str_digits_limit \<Longrightarrow> clipboard_formatted_size d (PInt n) = Inl ValueError"
proof -
  assume a: "n \<noteq> 0" "\<bar>n\<bar> \<ge> str_digits_limit"
  with limits_ordered(4) have "n \<noteq> 1" by auto
  with a show ?thesis
    by (simp add: clipboard_formatted_size_def bind_def py_str_int_def)
qed

lemma formatted_size_small:
  assumes "0 < n" "n < 1024"
  shows "clipboard_formatted_size d (PInt n) =
         Inr (if n = 1 then ''1 byte'' else str_int n @ '' bytes'')"
proof -
  from assms have "nat n < 2 ^ 10" by simp
  then have "floor_log2 (nat n) < 10" using floor_log2_less [of "nat n" 10] by simp
  moreover from assms have "py_str_int n = Inr (str_int n)"
    by (intro py_str_int_small) simp
  ultimately show ?thesis using assms
    by (simp add: clipboard_formatted_size_def bind_def Let_def)
qed

lemma formatted_size_overflow:
  assumes "double_overflow \<le> n" "n < str_digits_limit"
  shows "clipboard_formatted_size d (PInt n) = Inl OverflowError"
proof -
  from assms limits_ordered(3) have n: "1024 < n" by linarith
  then have "2 ^ 10 \<le> nat n" by simp
  then have "10 \<le> floor_log2 (nat n)" by (rule floor_log2_ge)
  then have "0 < min (floor_log2 (nat n) div 10) (length units - 1)"
    by (simp add: units_def)
  with n assms show ?thesis
    by (simp add: clipboard_formatted_size_def bind_def py_str_int_def Let_def)
qed

lemma formatted_size_in_range:
  assumes "n \<noteq> 0" "int_formats n"
  shows "\<exists>s. clipboard_formatted_size d (PInt n) = Inr s"
  using assms
  by (auto simp add: clipboard_formatted_size_def bind_def py_str_int_def Let_def int_formats_def)

lemma formatted_size_out_of_range:
  assumes "n \<noteq> 0" "\<not> int_formats n"
  shows "clipboard_formatted_size d (PInt n) = Inl ValueError
       \<or> clipboard_formatted_size d (PInt n) = Inl OverflowError"
proof (cases "\<bar>n\<bar> \<ge> str_digits_limit")
  case True
  with assms(1) show ?thesis by (simp add: formatted_size_too_long)
next
  case False
  with assms(2) have "double_overflow \<le> n" "n < str_digits_limit"
    by (auto simp add: int_formats_def)
  then show ?thesis by (simp add: formatted_size_overflow)
qed

lemma formattable_returns:
  "formattable d n \<Longrightarrow> \<exists>s. clipboard_formatted_size d (PInt n) = Inr s"
proof (cases "n = 0")
  case False
  assume "formattable d n"
  with False show ?thesis by (simp add: formattable_def formatted_size_in_range)
next
  case True
  assume f: "formattable d n"
  show ?thesis
  proof (cases d)
    case None
    with True show ?thesis by (simp add: formatted_size_zero_unreadable)
  next
    case (Some k)
    show ?thesis
    proof (cases k)
      case 0
      with True Some show ?thesis by (simp add: formatted_size_zero_empty)
    next
      case (Suc j)
      with f True Some have "int_formats (int (Suc j))" by (simp add: formattable_def)
      then obtain s where "clipboard_formatted_size d (PInt (int (Suc j))) = Inr s"
        using formatted_size_in_range [of "int (Suc j)" d] by auto
      with True Some Suc show ?thesis
        using formatted_size_zero_file [of j d] by simp
    qed
  qed
qed

lemma not_formattable_raises:
  assumes "\<not> formattable d n"
  shows "clipboard_formatted_size d (PInt n) = Inl ValueError
       \<or> clipboard_formatted_size d (PInt n) = Inl OverflowError"
proof (cases "n = 0")
  case False
  with assms show ?thesis by (simp add: formattable_def formatted_size_out_of_range)
next
  case True
  with assms obtain k where k: "d = Some k" "\<not> int_formats (int k)"
    by (cases d) (simp_all add: formattable_def)
  moreover have "int_formats 0"
    using limits_ordered(1,4) by (simp add: int_formats_def)
  ultimately have "k \<noteq> 0" by (cases "k = 0") simp_all
  then obtain j where j: "k = Suc j" by (cases k) auto
  with k have "clipboard_formatted_size d (PInt (int (Suc j))) = Inl ValueError
       \<or> clipboard_formatted_size d (PInt (int (Suc j))) = Inl OverflowError"
    by (intro formatted_size_out_of_range) auto
  with True k j show ?thesis
    using formatted_size_zero_file [of j d] by simp
qed

lemma exact_size_formattable: "exact_size d 0 \<Longrightarrow> formattable d 0"
  using limits_ordered(1,4)
  by (auto simp add: exact_size_def formattable_def int_formats_def split: option.splits)


lemma limits_power:
  "double_overflow \<le> 2 ^ 1024" "(2::int) ^ 1024 < str_digits_limit"
proof -
  show "double_overflow \<le> 2 ^ 1024"
    unfolding double_overflow_def by simp
  have "(2::int) ^ 1024 \<le> 10 ^ 1024" by (rule power_mono) simp_all
  also have "\<dots> < (10::int) ^ 4300" by (rule power_strict_increasing) simp_all
  finally show "(2::int) ^ 1024 < str_digits_limit"
    unfolding str_digits_limit_def .
qed

text \<open>
  C9 (as the code has it).  Formatting a size of 1 yields \<open>1 byte\<close>, and every size from
  1 to 1023 is printed without a magnitude; 1048576 yields \<open>1048576 bytes (1.0 MiB)\<close>.  A
  size of 0 counts as no size given: the size of the payload file is formatted in its
  place, which gives \<open>0 bytes\<close> for an empty file, \<open>? bytes\<close> when the size of the file
  cannot be read, and the text for that size otherwise.  The logarithm is taken of
  positive sizes only, so no domain error arises: a negative size above \<open>-10^4300\<close> is
  printed as it is, without a magnitude.  The function raises ValueError for an integer
  of more than 4300 digits, which \<^verbatim>\<open>str\<close> refuses, and OverflowError for a size from
  \<open>2^1024 - 2^970\<close> on, which does not fit a double.
\<close>

theorem clipboard_formatted_size_cases:
  "clipboard_formatted_size d (PInt 1) = Inr ''1 byte''
   \<and> (0 < n \<and> n < 1024 \<longrightarrow>
        clipboard_formatted_size d (PInt n) =
          Inr (if n = 1 then ''1 byte'' else str_int n @ '' bytes''))
   \<and> clipboard_formatted_size d (PInt 1048576) = Inr ''1048576 bytes (1.0 MiB)''
   \<and> clipboard_formatted_size None (PInt 0) = Inr ''? bytes''
   \<and> clipboard_formatted_size (Some 0) (PInt 0) = Inr ''0 bytes''
   \<and> clipboard_formatted_size (Some (Suc k)) (PInt 0) =
        clipboard_formatted_size d (PInt (int (Suc k)))
   \<and> (i < 0 \<and> - str_digits_limit < i \<longrightarrow>
        clipboard_formatted_size d (PInt i) = Inr (str_int i @ '' bytes''))
   \<and> (j \<noteq> 0 \<and> \<bar>j\<bar> \<ge> str_digits_limit \<longrightarrow>
        clipboard_formatted_size d (PInt j) = Inl ValueError)
   \<and> (double_overflow \<le> p \<and> p < str_digits_limit \<longrightarrow>
        clipboard_formatted_size d (PInt p) = Inl OverflowError)"
  using formatted_size_one formatted_size_small formatted_size_mib
    formatted_size_zero_unreadable formatted_size_zero_empty formatted_size_zero_file
    formatted_size_negative formatted_size_too_long formatted_size_overflow
  by blast

theorem clipboard_formatted_size_cases_witness:
  "clipboard_formatted_size None (PInt 1) = Inr ''1 byte''
   \<and> clipboard_formatted_size None (PInt 1023) = Inr ''1023 bytes''
   \<and> clipboard_formatted_size None (PInt 1048576) = Inr ''1048576 bytes (1.0 MiB)''
   \<and> clipboard_formatted_size None (PInt 0) = Inr ''? bytes''
   \<and> clipboard_formatted_size (Some 0) (PInt 0) = Inr ''0 bytes''
   \<and> clipboard_formatted_size (Some 1) (PInt 0) = Inr ''1 byte''
   \<and> clipboard_formatted_size None (PInt (- 5)) = Inr ''-5 bytes''
   \<and> clipboard_formatted_size None (PInt (- str_digits_limit)) = Inl ValueError
   \<and> clipboard_formatted_size None (PInt (2 ^ 1024)) = Inl OverflowError"
proof -
  have small: "(0::int) < 1023 \<and> (1023::int) < 1024" by simp
  have neg: "(- 5::int) < 0 \<and> - str_digits_limit < - 5"
    using limits_ordered(4) by simp
  have long: "- str_digits_limit \<noteq> 0 \<and> \<bar>- str_digits_limit\<bar> \<ge> str_digits_limit"
    using limits_ordered(4) by simp
  have big: "double_overflow \<le> 2 ^ 1024 \<and> (2::int) ^ 1024 < str_digits_limit"
    using limits_power by blast
  from clipboard_formatted_size_cases [where d = None and n = 1023 and k = 0 and i = "- 5"
      and j = "- str_digits_limit" and p = "2 ^ 1024"] small neg long big
  have "clipboard_formatted_size None (PInt 1) = Inr ''1 byte''
   \<and> clipboard_formatted_size None (PInt 1023) =
        Inr (if (1023::int) = 1 then ''1 byte'' else str_int 1023 @ '' bytes'')
   \<and> clipboard_formatted_size None (PInt 1048576) = Inr ''1048576 bytes (1.0 MiB)''
   \<and> clipboard_formatted_size None (PInt 0) = Inr ''? bytes''
   \<and> clipboard_formatted_size (Some 0) (PInt 0) = Inr ''0 bytes''
   \<and> clipboard_formatted_size (Some (Suc 0)) (PInt 0) =
        clipboard_formatted_size None (PInt (int (Suc 0)))
   \<and> clipboard_formatted_size None (PInt (- 5)) = Inr (str_int (- 5) @ '' bytes'')
   \<and> clipboard_formatted_size None (PInt (- str_digits_limit)) = Inl ValueError
   \<and> clipboard_formatted_size None (PInt (2 ^ 1024)) = Inl OverflowError"
    by blast
  then show ?thesis
    by (simp add: numeral_eval)
qed

text \<open>The sentence of the specification does not hold for a size of 0 when the payload
  file holds 2048 bytes: the result carries a magnitude.\<close>

theorem clipboard_formatted_size_zero_counterexample:
  "clipboard_formatted_size (Some 2048) (PInt 0) = Inr ''2048 bytes (2.0 KiB)''"
proof -
  have "to_double 2048 = 2048" by (rule to_double_exact) simp
  moreover have "\<not> (2048::int) \<ge> double_overflow"
    using limits_ordered(1) by simp
  moreover have "py_str_int 2048 = Inr ''2048''"
    by (simp add: py_str_int_small numeral_eval)
  ultimately show ?thesis
    by (simp add: clipboard_formatted_size_def bind_def format_1f_def units_def Let_def
        floor_log2_small floor_log2_large str_nat_small str_nat_large digit_char_def)
qed

subsection \<open>The classifier on well-typed metadata\<close>

lemma truth_flag: "py_truth (flag enc b) = Inr b"
  by (cases enc) auto

lemma getitem_typed:
  "py_getitem (metadata_dict enc m) ''vmname'' = Inr (PStr (vmname m))"
  "py_getitem (metadata_dict enc m) ''copy_action'' = Inr (flag enc (copy_action m))"
  "py_getitem (metadata_dict enc m) ''paste_action'' = Inr (flag enc (paste_action m))"
  "py_getitem (metadata_dict enc m) ''sent_size'' = Inr (PInt (sent_size m))"
  "py_getitem (metadata_dict enc m) ''cleared'' = Inr (flag enc (cleared m))"
  "py_getitem (metadata_dict enc m) ''qrexec_clipboard'' = Inr (flag enc (qrexec_clipboard m))"
  "py_getitem (metadata_dict enc m) ''malformed_request'' = Inr (flag enc (malformed_request m))"
  "py_getitem (metadata_dict enc m) ''oversized_request'' = Inr (flag enc (oversized_request m))"
  "py_getitem (metadata_dict enc m) ''buffer_size'' = Inr (PInt (buffer_size m))"
  "py_getitem (metadata_dict enc m) ''successful'' = Inr (flag enc (successful m))"
  by (simp_all add: py_getitem_def metadata_dict_def optional_item_def split: option.splits)

lemma getitem_version:
  "py_getitem (metadata_dict enc m) ''protocol_version_xside'' =
     (case protocol_version_xside m of None \<Rightarrow> Inl (KeyError ''protocol_version_xside'') | Some v \<Rightarrow> Inr (PInt v))"
  by (simp add: py_getitem_def metadata_dict_def optional_item_def split: option.splits)

lemma haskey_version:
  "py_haskey (metadata_dict enc m) ''protocol_version_xside'' = Inr (protocol_version_xside m \<noteq> None)"
  by (cases "protocol_version_xside m"; cases "protocol_version_vmside m")
     (simp_all add: py_haskey_def metadata_dict_def optional_item_def)

lemma truthy_typed:
  "truthy (metadata_dict enc m) ''copy_action'' = Inr (copy_action m)"
  "truthy (metadata_dict enc m) ''paste_action'' = Inr (paste_action m)"
  "truthy (metadata_dict enc m) ''cleared'' = Inr (cleared m)"
  "truthy (metadata_dict enc m) ''qrexec_clipboard'' = Inr (qrexec_clipboard m)"
  "truthy (metadata_dict enc m) ''malformed_request'' = Inr (malformed_request m)"
  "truthy (metadata_dict enc m) ''oversized_request'' = Inr (oversized_request m)"
  "truthy (metadata_dict enc m) ''successful'' = Inr (successful m)"
  by (simp_all add: truthy_def getitem_typed bind_def truth_flag)

lemma formatted_vmname: "formatted (metadata_dict enc m) ''vmname'' = Inr (vmname m)"
  by (simp add: formatted_def getitem_typed bind_def)


lemma copy_body_typed:
  "copy_body sc d (metadata_dict enc m) sz =
     (if malformed_request m then Inr (ERROR_MALFORMED_DATA (vmname m), ''dialog-error'')
      else if qrexec_clipboard m \<and> sent_size m \<ge> buffer_size m
        then Inr (WARNING_POSSIBLE_TRUNCATION (vmname m) sz, ''dialog-warning'')
      else if oversized_request m
        then bind (clipboard_formatted_size d (PInt (buffer_size m))) (\<lambda>limit.
               Inr (ERROR_OVERSIZED_DATA (vmname m) sz limit, ''dialog-error''))
      else if successful m \<and> cleared m \<and> sent_size m = 0
        then Inr (WARNING_EMPTY_CLIPBOARD (vmname m), ''dialog-warning'')
      else if \<not> successful m then Inr (ERROR_ON_COPY (vmname m), ''dialog-error'')
      else Inr (MSG_COPY_SUCCESS (vmname m) sz sc, ''dialog-information''))"
  by (simp add: copy_body_def truthy_typed formatted_vmname getitem_typed bind_Inr py_ge_def py_eq_zero_def)

lemma paste_body_typed:
  "paste_body d (metadata_dict enc m) =
     (if \<not> successful m \<or> malformed_request m
        then Inr (ERROR_ON_PASTE (vmname m) @ MSG_WIPED, ''dialog-error'')
      else if (case protocol_version_xside m of None \<Rightarrow> False | Some v \<Rightarrow> v \<ge> 0x00010008)
        then bind (clipboard_formatted_size d (PInt (sent_size m))) (\<lambda>sz.
               Inr (MSG_PASTE_SUCCESS_METADATA sz (vmname m), ''dialog-information''))
      else Inr (MSG_PASTE_SUCCESS_LEGACY, ''dialog-information''))"
  by (simp add: paste_body_def truthy_typed formatted_vmname getitem_typed getitem_version haskey_version bind_Inr py_ge_def split: option.splits)

lemma update_notification:
  "map_sum id notification (update_clipboard_contents (PStr v) (PStr s) msg icon) =
     Inr (if msg \<noteq> [] then Some (msg, icon) else None)"
  "map_sum id notification (update_clipboard_contents PNone (PInt 0) msg icon) =
     Inr (if msg \<noteq> [] then Some (msg, icon) else None)"
  by (simp_all add: update_clipboard_contents_def bind_def)

lemma EventHandler_copy_typed:
  assumes "clipboard_formatted_size d (PInt (sent_size m)) = Inr sz"
    and "copy_body sc d (metadata_dict enc m) sz = Inr (body, icon)"
  shows "EventHandler_copy sc d (metadata_dict enc m) =
           update_clipboard_contents (PStr (vmname m)) (PStr sz)
             (if cleared m then body @ MSG_WIPED else body) icon"
  using assms by (simp add: EventHandler_copy_def getitem_typed truthy_typed bind_Inr)










text \<open>
  C6 (as the code has it).  A copy event with nothing sent, successful and cleared,
  neither malformed nor oversized, yields the empty-clipboard warning (icon
  \<open>dialog-warning\<close>, the wipe suffix appended), unless it used the qrexec clipboard with a
  buffer size of 0 or less: rule 2 comes first and compares \<open>sent_size \<ge> buffer_size\<close>.
\<close>

theorem empty_copy_warning:
  assumes "copy_action m" and "sent_size m = 0" and "successful m" and "cleared m"
    and "\<not> malformed_request m" and "\<not> oversized_request m"
    and "\<not> (qrexec_clipboard m \<and> buffer_size m \<le> 0)"
    and "exact_size d 0"
  shows "dispatch (metadata_dict enc m) = Inr Copy
         \<and> map_sum id notification (EventHandler_copy sc d (metadata_dict enc m)) =
             Inr (Some (WARNING_EMPTY_CLIPBOARD (vmname m) @ MSG_WIPED, ''dialog-warning''))"
proof -
  from assms(8) have "formattable d 0" by (rule exact_size_formattable)
  then obtain sz where "clipboard_formatted_size d (PInt 0) = Inr sz"
    using formattable_returns by blast
  with assms(2) have sz: "clipboard_formatted_size d (PInt (sent_size m)) = Inr sz"
    by simp
  have body: "copy_body sc d (metadata_dict enc m) sz =
                Inr (WARNING_EMPTY_CLIPBOARD (vmname m), ''dialog-warning'')"
    using assms by (auto simp add: copy_body_typed)
  have "dispatch (metadata_dict enc m) = Inr Copy"
    using assms(1) by (simp add: dispatch_def truthy_typed bind_Inr)
  then show ?thesis
    using assms(4) by (simp add: EventHandler_copy_typed [OF sz body] update_notification MSG_WIPED_def)
qed

theorem empty_copy_warning_witness:
  "dispatch (metadata_dict AsBool (empty_copy\<lparr>qrexec_clipboard := True\<rparr>)) = Inr Copy
   \<and> map_sum id notification
       (EventHandler_copy ''Ctrl+Shift+V'' None
          (metadata_dict AsBool (empty_copy\<lparr>qrexec_clipboard := True\<rparr>))) =
     Inr (Some (WARNING_EMPTY_CLIPBOARD ''work'' @ MSG_WIPED, ''dialog-warning''))"
  using empty_copy_warning [where m = "empty_copy\<lparr>qrexec_clipboard := True\<rparr>"
      and d = None and enc = AsBool and sc = "''Ctrl+Shift+V''"]
  by (simp add: empty_copy_def exact_size_def)

text \<open>With a qrexec clipboard and a buffer size of 0 the outcome is the truncation
  warning, not the empty-clipboard warning.\<close>

theorem empty_copy_warning_counterexample:
  "map_sum id notification
     (EventHandler_copy ''Ctrl+Shift+V'' (Some 0)
        (metadata_dict AsBool (empty_copy\<lparr>qrexec_clipboard := True, buffer_size := 0\<rparr>))) =
   Inr (Some (WARNING_POSSIBLE_TRUNCATION ''work'' ''0 bytes'' @ MSG_WIPED, ''dialog-warning''))"
proof -
  let ?m = "empty_copy\<lparr>qrexec_clipboard := True, buffer_size := 0\<rparr>"
  have sz: "clipboard_formatted_size (Some 0) (PInt (sent_size ?m)) = Inr ''0 bytes''"
    by (simp add: empty_copy_def formatted_size_zero_empty)
  have body: "copy_body ''Ctrl+Shift+V'' (Some 0) (metadata_dict AsBool ?m) ''0 bytes'' =
                Inr (WARNING_POSSIBLE_TRUNCATION ''work'' ''0 bytes'', ''dialog-warning'')"
    by (simp add: copy_body_typed empty_copy_def)
  show ?thesis
    by (simp add: EventHandler_copy_typed [OF sz body] update_notification MSG_WIPED_def)
       (simp add: empty_copy_def)
qed


lemma EventHandler_paste_typed:
  assumes "paste_body d (metadata_dict enc m) = Inr (body, icon)" and "body \<noteq> []"
  shows "map_sum id notification (EventHandler_paste d (metadata_dict enc m)) =
           Inr (Some (body, icon))"
  using assms by (simp add: EventHandler_paste_def bind_Inr update_clipboard_contents_def)

text \<open>
  C8 (as the code has it).  For every paste event: when it is not successful or is
  malformed, the notification is the paste-failed error with the wipe suffix; otherwise,
  when \<open>protocol_version_xside\<close> is present and at least \<open>0x00010008\<close>, it is the
  information naming the destination qube and the formatted size, provided that size can
  be formatted, and the classifier raises ValueError or OverflowError when it cannot;
  otherwise it is the legacy pasted-and-wiped information, without a size.
\<close>

theorem paste_classification:
  "(\<not> successful m \<or> malformed_request m \<longrightarrow>
      map_sum id notification (EventHandler_paste d (metadata_dict enc m)) =
        Inr (Some (ERROR_ON_PASTE (vmname m) @ MSG_WIPED, ''dialog-error'')))
   \<and> (successful m \<and> \<not> malformed_request m \<and> protocol_version_xside m = Some v
        \<and> v \<ge> 0x00010008 \<and> formattable d (sent_size m) \<longrightarrow>
      (\<exists>sz. clipboard_formatted_size d (PInt (sent_size m)) = Inr sz
          \<and> map_sum id notification (EventHandler_paste d (metadata_dict enc m)) =
              Inr (Some (MSG_PASTE_SUCCESS_METADATA sz (vmname m), ''dialog-information''))))
   \<and> (successful m \<and> \<not> malformed_request m \<and> protocol_version_xside m = Some v
        \<and> v \<ge> 0x00010008 \<and> \<not> formattable d (sent_size m) \<longrightarrow>
      EventHandler_paste d (metadata_dict enc m) = Inl ValueError
      \<or> EventHandler_paste d (metadata_dict enc m) = Inl OverflowError)
   \<and> (successful m \<and> \<not> malformed_request m
        \<and> (protocol_version_xside m = None \<or> protocol_version_xside m = Some v \<and> v < 0x00010008) \<longrightarrow>
      map_sum id notification (EventHandler_paste d (metadata_dict enc m)) =
        Inr (Some (MSG_PASTE_SUCCESS_LEGACY, ''dialog-information'')))"
proof (intro conjI impI)
  assume "\<not> successful m \<or> malformed_request m"
  then show "map_sum id notification (EventHandler_paste d (metadata_dict enc m)) =
        Inr (Some (ERROR_ON_PASTE (vmname m) @ MSG_WIPED, ''dialog-error''))"
    by (auto simp add: EventHandler_paste_def paste_body_typed bind_Inr update_notification MSG_WIPED_def)
next
  assume a: "successful m \<and> \<not> malformed_request m \<and> protocol_version_xside m = Some v
        \<and> v \<ge> 0x00010008 \<and> formattable d (sent_size m)"
  then obtain sz where sz: "clipboard_formatted_size d (PInt (sent_size m)) = Inr sz"
    using formattable_returns by blast
  with a have "map_sum id notification (EventHandler_paste d (metadata_dict enc m)) =
              Inr (Some (MSG_PASTE_SUCCESS_METADATA sz (vmname m), ''dialog-information''))"
    by (simp add: EventHandler_paste_def paste_body_typed bind_Inr update_notification MSG_PASTE_SUCCESS_METADATA_def)
  with sz show "\<exists>sz. clipboard_formatted_size d (PInt (sent_size m)) = Inr sz
          \<and> map_sum id notification (EventHandler_paste d (metadata_dict enc m)) =
              Inr (Some (MSG_PASTE_SUCCESS_METADATA sz (vmname m), ''dialog-information''))"
    by blast
next
  assume a: "successful m \<and> \<not> malformed_request m \<and> protocol_version_xside m = Some v
        \<and> v \<ge> 0x00010008 \<and> \<not> formattable d (sent_size m)"
  then have "clipboard_formatted_size d (PInt (sent_size m)) = Inl ValueError
      \<or> clipboard_formatted_size d (PInt (sent_size m)) = Inl OverflowError"
    using not_formattable_raises by blast
  with a show "EventHandler_paste d (metadata_dict enc m) = Inl ValueError
      \<or> EventHandler_paste d (metadata_dict enc m) = Inl OverflowError"
    by (auto simp add: EventHandler_paste_def paste_body_typed bind_Inl)
next
  assume "successful m \<and> \<not> malformed_request m
        \<and> (protocol_version_xside m = None \<or> protocol_version_xside m = Some v \<and> v < 0x00010008)"
  then show "map_sum id notification (EventHandler_paste d (metadata_dict enc m)) =
        Inr (Some (MSG_PASTE_SUCCESS_LEGACY, ''dialog-information''))"
    by (auto simp add: EventHandler_paste_def paste_body_typed bind_Inr update_notification MSG_PASTE_SUCCESS_LEGACY_def)
qed

lemma paste_overflow:
  "EventHandler_paste (Some 42)
     (metadata_dict AsInt (empty_copy\<lparr>copy_action := False, paste_action := True,
        sent_size := 2 ^ 1024\<rparr>)) = Inl OverflowError"
proof -
  let ?m = "empty_copy\<lparr>copy_action := False, paste_action := True, sent_size := 2 ^ 1024\<rparr>"
  have s: "sent_size ?m = 2 ^ 1024" by simp
  have "clipboard_formatted_size (Some 42) (PInt (2 ^ 1024)) = Inl OverflowError"
    using formatted_size_overflow limits_power by blast
  then have sz: "clipboard_formatted_size (Some 42) (PInt (sent_size ?m)) = Inl OverflowError"
    by (simp only: s)
  have "paste_body (Some 42) (metadata_dict AsInt ?m) = Inl OverflowError"
    unfolding paste_body_typed sz by (simp add: empty_copy_def bind_Inl)
  then show ?thesis
    by (simp add: EventHandler_paste_def bind_Inl)
qed

lemma not_formattable_power: "\<not> formattable d (2 ^ 1024)"
proof -
  have "(2::int) ^ 1024 \<noteq> 0" by simp
  then show ?thesis
    using limits_power(1) unfolding formattable_def int_formats_def by simp
qed

theorem paste_classification_witness:
  "map_sum id notification
     (EventHandler_paste (Some 42)
        (metadata_dict AsInt (empty_copy\<lparr>copy_action := False, paste_action := True,
           successful := False\<rparr>))) =
   Inr (Some (ERROR_ON_PASTE ''work'' @ MSG_WIPED, ''dialog-error''))
   \<and> map_sum id notification
     (EventHandler_paste (Some 42)
        (metadata_dict AsInt (empty_copy\<lparr>copy_action := False, paste_action := True,
           sent_size := 42\<rparr>))) =
   Inr (Some (MSG_PASTE_SUCCESS_METADATA ''42 bytes'' ''work'', ''dialog-information''))
   \<and> (EventHandler_paste (Some 42)
        (metadata_dict AsInt (empty_copy\<lparr>copy_action := False, paste_action := True,
           sent_size := 2 ^ 1024\<rparr>)) = Inl ValueError
      \<or> EventHandler_paste (Some 42)
        (metadata_dict AsInt (empty_copy\<lparr>copy_action := False, paste_action := True,
           sent_size := 2 ^ 1024\<rparr>)) = Inl OverflowError)
   \<and> map_sum id notification
     (EventHandler_paste (Some 42)
        (metadata_dict AsBool (empty_copy\<lparr>vmname := [], copy_action := False,
           paste_action := True, sent_size := 42, cleared := False,
           protocol_version_xside := None, protocol_version_vmside := None\<rparr>))) =
   Inr (Some (MSG_PASTE_SUCCESS_LEGACY, ''dialog-information''))"
proof -
  let ?big = "empty_copy\<lparr>copy_action := False, paste_action := True, sent_size := 2 ^ 1024\<rparr>"
  have f42: "formattable (Some 42) 42"
    using limits_ordered(1,4) by (simp add: formattable_def int_formats_def)
  have s: "sent_size ?big = 2 ^ 1024" by simp
  have nf: "\<not> formattable (Some 42) (sent_size ?big)"
    unfolding s by (rule not_formattable_power)
  have big: "successful ?big \<and> \<not> malformed_request ?big
      \<and> protocol_version_xside ?big = Some 65544 \<and> (65544::int) \<ge> 0x00010008"
    by (simp add: empty_copy_def)
  from paste_classification [where m = ?big and d = "Some 42" and enc = AsInt and v = 65544]
    big nf
  have third: "EventHandler_paste (Some 42) (metadata_dict AsInt ?big) = Inl ValueError
      \<or> EventHandler_paste (Some 42) (metadata_dict AsInt ?big) = Inl OverflowError"
    by blast
  have rest: "map_sum id notification
     (EventHandler_paste (Some 42)
        (metadata_dict AsInt (empty_copy\<lparr>copy_action := False, paste_action := True,
           successful := False\<rparr>))) =
   Inr (Some (ERROR_ON_PASTE ''work'' @ MSG_WIPED, ''dialog-error''))
   \<and> map_sum id notification
     (EventHandler_paste (Some 42)
        (metadata_dict AsInt (empty_copy\<lparr>copy_action := False, paste_action := True,
           sent_size := 42\<rparr>))) =
   Inr (Some (MSG_PASTE_SUCCESS_METADATA ''42 bytes'' ''work'', ''dialog-information''))
   \<and> map_sum id notification
     (EventHandler_paste (Some 42)
        (metadata_dict AsBool (empty_copy\<lparr>vmname := [], copy_action := False,
           paste_action := True, sent_size := 42, cleared := False,
           protocol_version_xside := None, protocol_version_vmside := None\<rparr>))) =
   Inr (Some (MSG_PASTE_SUCCESS_LEGACY, ''dialog-information''))"
    using
      paste_classification [where m = "empty_copy\<lparr>copy_action := False, paste_action := True,
           successful := False\<rparr>" and d = "Some 42" and enc = AsInt and v = 0]
      paste_classification [where m = "empty_copy\<lparr>copy_action := False, paste_action := True,
           sent_size := 42\<rparr>" and d = "Some 42" and enc = AsInt and v = 65544]
      paste_classification [where m = "empty_copy\<lparr>vmname := [], copy_action := False,
           paste_action := True, sent_size := 42, cleared := False,
           protocol_version_xside := None, protocol_version_vmside := None\<rparr>"
        and d = "Some 42" and enc = AsBool and v = 0]
      formatted_size_small [of 42 "Some 42"] f42
    by (simp add: empty_copy_def numeral_eval)
  from rest third show ?thesis by blast
qed

text \<open>The sentence of the specification does not hold for a successful paste under
  protocol 1.8 whose \<^verbatim>\<open>sent_size\<close> is \<open>2^1024\<close>: the conversion to a double raises
  OverflowError and no notification is produced.\<close>

theorem paste_overflow_counterexample:
  "EventHandler_paste (Some 42)
     (metadata_dict AsInt (empty_copy\<lparr>copy_action := False, paste_action := True,
        sent_size := 2 ^ 1024\<rparr>)) = Inl OverflowError"
  by (rule paste_overflow)


subsection \<open>Evaluating the JSON decoder\<close>

lemmas fuel_numeral =
  scan_once.simps(2,3) [where n = "pred_numeral k", folded numeral_eq_Suc]
  parse_object.simps(2,3) [where n = "pred_numeral k", folded numeral_eq_Suc]
  parse_array.simps(2) [where n = "pred_numeral k", folded numeral_eq_Suc]
  scanstring.simps(2,3) [where n = "pred_numeral k", folded numeral_eq_Suc]
  for k
lemma bind_weak_cong: "r = r' \<Longrightarrow> bind r f = bind r' f" by simp
lemmas json_eval = json_loads_def bind_Inr bind_Inl skip_ws_def is_ws_def dq_def backslash_def
  is_digit_def digit_val_def decimal_def match_number_def match_frac_def match_exp_def
  starts_with_def simple_escape_def fuel_numeral Let_def
lemmas weak_congs = bind_weak_cong list.case_cong_weak option.case_cong_weak sum.case_cong_weak prod.case_cong_weak

subsection \<open>The decoder\<close>

lemma universal_newlines_id: "CHR 0x0D \<notin> set s \<Longrightarrow> universal_newlines s = s"
  by (induction s rule: universal_newlines.induct) auto

lemma first_line_bytes:
  "takeWhile (\<lambda>c. c \<noteq> CHR 0x0A) (universal_newlines s) =
   takeWhile (\<lambda>c. c \<noteq> CHR 0x0A \<and> c \<noteq> CHR 0x0D) s"
  by (induction s rule: universal_newlines.induct) auto

lemma dropWhile_rev_line:
  assumes "\<forall>c \<in> set t. c \<noteq> CHR 0x0A"
  shows "dropWhile (\<lambda>c. c = CHR 0x0A) (rev t) = rev t"
  using assms by (cases "rev t") (auto simp add: rev_eq_Cons_iff)

lemma strip_newlines_line:
  assumes "\<forall>c \<in> set t. c \<noteq> CHR 0x0A"
  shows "strip_newlines t = t" "strip_newlines (t @ [CHR 0x0A]) = t"
proof -
  have d: "dropWhile (\<lambda>c. c = CHR 0x0A) (t @ e) = (if t = [] then dropWhile (\<lambda>c. c = CHR 0x0A) e else t @ e)"
    for e using assms by (cases t) simp_all
  show "strip_newlines t = t"
    using d [of "[]"] dropWhile_rev_line [OF assms] by (simp add: strip_newlines_def)
  show "strip_newlines (t @ [CHR 0x0A]) = t"
    using d [of "[CHR 0x0A]"] dropWhile_rev_line [OF assms] by (simp add: strip_newlines_def)
qed

lemma read_line_name:
  assumes "readable ff" and "is_ascii (contents ff)" and "length (contents ff) \<le> 8192"
  shows "\<exists>line. read_line ff = Inr line
           \<and> strip_newlines line =
               takeWhile (\<lambda>c. c \<noteq> CHR 0x0A \<and> c \<noteq> CHR 0x0D) (contents ff)"
proof -
  let ?t = "takeWhile (\<lambda>c. c \<noteq> CHR 0x0A) (universal_newlines (contents ff))"
  have "\<forall>c \<in> set ?t. c \<noteq> CHR 0x0A"
    by (auto dest: set_takeWhileD)
  from strip_newlines_line [OF this] assms show ?thesis
    by (simp add: read_line_def Let_def first_line_bytes)
qed

lemma decode_legacy: "legacy_mode fs \<Longrightarrow> decode fs = map_sum id Some (legacy_metadata fs)"
  by (auto simp add: legacy_mode_def decode_def split: option.splits)

lemma legacy_metadata_typed:
  assumes "fs FROM = Some ff" and "read_line ff = Inr line"
  shows "legacy_metadata fs =
    Inr (metadata_dict AsBool
      \<lparr>vmname = strip_newlines line,
       copy_action = (strip_newlines line \<noteq> []),
       paste_action = (strip_newlines line = []),
       sent_size = (case getsize_DATA fs of None \<Rightarrow> 0 | Some k \<Rightarrow> int k),
       cleared = ((case getsize_DATA fs of None \<Rightarrow> 0 | Some k \<Rightarrow> int k) = 0),
       qrexec_clipboard = False,
       malformed_request = False,
       oversized_request = ((case getsize_DATA fs of None \<Rightarrow> 0 | Some k \<Rightarrow> int k) \<ge> 65000),
       buffer_size = 65000,
       successful = (\<not> (strip_newlines line \<noteq> [] \<and> (case getsize_DATA fs of None \<Rightarrow> 0 | Some k \<Rightarrow> int k) = 0)),
       protocol_version_xside = None,
       protocol_version_vmside = None\<rparr>)"
  using assms
  by (auto simp add: legacy_metadata_def bind_Inr metadata_dict_def optional_item_def Let_def)

lemma legacy_decode_line:
  assumes "legacy_mode fs" and "fs FROM = Some ff" and "read_line ff = Inr line"
  shows "\<exists>m. decode fs = Inr (Some (metadata_dict AsBool m))
           \<and> vmname m = strip_newlines line
           \<and> copy_action m = (vmname m \<noteq> [])
           \<and> paste_action m = (vmname m = [])
           \<and> sent_size m = (case getsize_DATA fs of None \<Rightarrow> 0 | Some k \<Rightarrow> int k)
           \<and> cleared m = (sent_size m = 0)
           \<and> \<not> qrexec_clipboard m \<and> \<not> malformed_request m
           \<and> oversized_request m = (sent_size m \<ge> 65000)
           \<and> buffer_size m = 65000
           \<and> (\<not> successful m) = (copy_action m \<and> sent_size m = 0)
           \<and> protocol_version_xside m = None \<and> protocol_version_vmside m = None"
proof -
  let ?n = "case getsize_DATA fs of None \<Rightarrow> 0 | Some k \<Rightarrow> int k"
  let ?m = "\<lparr>vmname = strip_newlines line,
       copy_action = (strip_newlines line \<noteq> []),
       paste_action = (strip_newlines line = []),
       sent_size = ?n, cleared = (?n = 0),
       qrexec_clipboard = False, malformed_request = False,
       oversized_request = (?n \<ge> 65000), buffer_size = 65000,
       successful = (\<not> (strip_newlines line \<noteq> [] \<and> ?n = 0)),
       protocol_version_xside = None, protocol_version_vmside = None\<rparr>"
  have "decode fs = Inr (Some (metadata_dict AsBool ?m))"
    using assms legacy_metadata_typed [where fs = fs and ff = ff and line = line]
    by (simp add: decode_legacy)
  then show ?thesis
    by (intro exI [where x = ?m]) auto
qed

lemma legacy_decode_record:
  assumes "legacy_mode fs" and "fs FROM = Some ff" and "readable ff"
    and "is_ascii (contents ff)" and "length (contents ff) \<le> 8192"
  shows "\<exists>m. decode fs = Inr (Some (metadata_dict AsBool m))
           \<and> vmname m = takeWhile (\<lambda>c. c \<noteq> CHR 0x0A \<and> c \<noteq> CHR 0x0D) (contents ff)
           \<and> copy_action m = (vmname m \<noteq> [])
           \<and> paste_action m = (vmname m = [])
           \<and> sent_size m = (case getsize_DATA fs of None \<Rightarrow> 0 | Some k \<Rightarrow> int k)
           \<and> cleared m = (sent_size m = 0)
           \<and> \<not> qrexec_clipboard m \<and> \<not> malformed_request m
           \<and> oversized_request m = (sent_size m \<ge> 65000)
           \<and> buffer_size m = 65000
           \<and> (\<not> successful m) = (copy_action m \<and> sent_size m = 0)
           \<and> protocol_version_xside m = None \<and> protocol_version_vmside m = None
           \<and> (contents ff = ''work'' @ [CHR 0x0A] @ rest \<and> getsize_DATA fs = Some 42 \<longrightarrow>
                m = \<lparr>vmname = ''work'', copy_action = True, paste_action = False,
                     sent_size = 42, cleared = False, qrexec_clipboard = False,
                     malformed_request = False, oversized_request = False,
                     buffer_size = 65000, successful = True,
                     protocol_version_xside = None, protocol_version_vmside = None\<rparr>)"
proof -
  from read_line_name [OF assms(3-5)] obtain line where
    line: "read_line ff = Inr line" and
    name: "strip_newlines line =
             takeWhile (\<lambda>c. c \<noteq> CHR 0x0A \<and> c \<noteq> CHR 0x0D) (contents ff)"
    by blast
  from legacy_decode_line [OF assms(1,2) line] obtain m where
    dec: "decode fs = Inr (Some (metadata_dict AsBool m))" and
    fields: "vmname m = strip_newlines line" "copy_action m = (vmname m \<noteq> [])"
      "paste_action m = (vmname m = [])"
      "sent_size m = (case getsize_DATA fs of None \<Rightarrow> 0 | Some k \<Rightarrow> int k)"
      "cleared m = (sent_size m = 0)" "\<not> qrexec_clipboard m" "\<not> malformed_request m"
      "oversized_request m = (sent_size m \<ge> 65000)" "buffer_size m = 65000"
      "(\<not> successful m) = (copy_action m \<and> sent_size m = 0)"
      "protocol_version_xside m = None" "protocol_version_vmside m = None"
    by blast
  have "m = \<lparr>vmname = ''work'', copy_action = True, paste_action = False,
      sent_size = 42, cleared = False, qrexec_clipboard = False,
      malformed_request = False, oversized_request = False,
      buffer_size = 65000, successful = True,
      protocol_version_xside = None, protocol_version_vmside = None\<rparr>"
    if "contents ff = ''work'' @ [CHR 0x0A] @ rest" and "getsize_DATA fs = Some 42"
    using fields name that by (cases m) simp
  with dec fields name show ?thesis
    by (intro exI [where x = m]) simp
qed

lemma regular_file_line:
  "readable (regular_file c t)" "contents (regular_file c t) = c"
  by (simp_all add: regular_file_def)

lemma decode_work_example:
  "decode (no_files(FROM := Some (regular_file (''work'' @ [CHR 0x0A]) 1),
                    DATA := Some (regular_file (replicate 42 CHR ''x'') 1))) =
   Inr (Some (metadata_dict AsBool
     \<lparr>vmname = ''work'', copy_action = True, paste_action = False,
      sent_size = 42, cleared = False, qrexec_clipboard = False,
      malformed_request = False, oversized_request = False,
      buffer_size = 65000, successful = True,
      protocol_version_xside = None, protocol_version_vmside = None\<rparr>))"
proof -
  let ?ff = "regular_file (''work'' @ [CHR 0x0A]) 1"
  let ?fs = "no_files(FROM := Some ?ff,
                      DATA := Some (regular_file (replicate 42 CHR ''x'') 1))"
  have mode: "legacy_mode ?fs"
    by (simp add: legacy_mode_def no_files_def)
  have src: "?fs FROM = Some ?ff"
    by simp
  have len: "getsize_DATA ?fs = Some 42"
    by (simp add: getsize_DATA_def regular_file_def)
  have ff: "readable ?ff" "is_ascii (contents ?ff)" "length (contents ?ff) \<le> 8192"
    "contents ?ff = ''work'' @ [CHR 0x0A] @ []"
    by (simp_all add: regular_file_def is_ascii_def)
  from legacy_decode_record [OF mode src ff(1-3), where rest = "[]"] obtain m where
    dec: "decode ?fs = Inr (Some (metadata_dict AsBool m))" and
    ex: "contents ?ff = ''work'' @ [CHR 0x0A] @ [] \<and> getsize_DATA ?fs = Some 42 \<longrightarrow>
         m = \<lparr>vmname = ''work'', copy_action = True, paste_action = False,
      sent_size = 42, cleared = False, qrexec_clipboard = False,
      malformed_request = False, oversized_request = False,
      buffer_size = 65000, successful = True,
      protocol_version_xside = None, protocol_version_vmside = None\<rparr>"
    by blast
  from ex len ff(4) have "m = \<lparr>vmname = ''work'', copy_action = True, paste_action = False,
      sent_size = 42, cleared = False, qrexec_clipboard = False,
      malformed_request = False, oversized_request = False,
      buffer_size = 65000, successful = True,
      protocol_version_xside = None, protocol_version_vmside = None\<rparr>"
    by blast
  with dec show ?thesis by (simp only:)
qed

text \<open>
  C7.  In legacy mode, with a readable source file of ASCII bytes (of at most 8192 bytes,
  one chunk of the text decoder), the decoder produces the record synthesised from the
  name and the size of the payload file (0 when it is missing).  The name is the first
  line of the file, the bytes before the first line feed or carriage return:
  \<open>copy_action\<close> when the name is not empty, \<open>paste_action\<close> otherwise, \<open>cleared\<close> when the
  size is 0, \<open>oversized_request\<close> from 65000 bytes on, no protocol version, and
  \<open>successful\<close> false exactly when \<open>copy_action\<close> holds with \<open>sent_size = 0\<close>.  For a file
  that begins with the line \<open>work\<close> and a payload of 42 bytes the record is the one of the
  specification.
\<close>

theorem legacy_decode:
  assumes "legacy_mode fs" and "fs FROM = Some ff" and "readable ff"
    and "is_ascii (contents ff)" and "length (contents ff) \<le> 8192"
  shows "\<exists>m. decode fs = Inr (Some (metadata_dict AsBool m))
           \<and> vmname m = takeWhile (\<lambda>c. c \<noteq> CHR 0x0A \<and> c \<noteq> CHR 0x0D) (contents ff)
           \<and> copy_action m = (vmname m \<noteq> [])
           \<and> paste_action m = (vmname m = [])
           \<and> sent_size m = (case getsize_DATA fs of None \<Rightarrow> 0 | Some k \<Rightarrow> int k)
           \<and> cleared m = (sent_size m = 0)
           \<and> \<not> qrexec_clipboard m \<and> \<not> malformed_request m
           \<and> oversized_request m = (sent_size m \<ge> 65000)
           \<and> buffer_size m = 65000
           \<and> (\<not> successful m) = (copy_action m \<and> sent_size m = 0)
           \<and> protocol_version_xside m = None \<and> protocol_version_vmside m = None
           \<and> (contents ff = ''work'' @ [CHR 0x0A] @ rest \<and> getsize_DATA fs = Some 42 \<longrightarrow>
                m = \<lparr>vmname = ''work'', copy_action = True, paste_action = False,
                     sent_size = 42, cleared = False, qrexec_clipboard = False,
                     malformed_request = False, oversized_request = False,
                     buffer_size = 65000, successful = True,
                     protocol_version_xside = None, protocol_version_vmside = None\<rparr>)"
  using assms by (rule legacy_decode_record)

theorem legacy_decode_witness:
  "decode (no_files(FROM := Some (regular_file (''work'' @ [CHR 0x0A] @ ''dom0'' @ [CHR 0x0A]) 1),
                    DATA := Some (regular_file (replicate 42 CHR ''x'') 1))) =
   Inr (Some (metadata_dict AsBool
     \<lparr>vmname = ''work'', copy_action = True, paste_action = False,
      sent_size = 42, cleared = False, qrexec_clipboard = False,
      malformed_request = False, oversized_request = False,
      buffer_size = 65000, successful = True,
      protocol_version_xside = None, protocol_version_vmside = None\<rparr>))"
proof -
  let ?ff = "regular_file (''work'' @ [CHR 0x0A] @ ''dom0'' @ [CHR 0x0A]) 1"
  let ?fs = "no_files(FROM := Some ?ff,
                      DATA := Some (regular_file (replicate 42 CHR ''x'') 1))"
  have mode: "legacy_mode ?fs"
    by (simp add: legacy_mode_def no_files_def)
  have src: "?fs FROM = Some ?ff"
    by simp
  have len: "getsize_DATA ?fs = Some 42"
    by (simp add: getsize_DATA_def regular_file_def)
  have ff: "readable ?ff" "is_ascii (contents ?ff)" "length (contents ?ff) \<le> 8192"
    "contents ?ff = ''work'' @ [CHR 0x0A] @ (''dom0'' @ [CHR 0x0A])"
    by (simp_all add: regular_file_def is_ascii_def)
  from legacy_decode [OF mode src ff(1-3), where rest = "''dom0'' @ [CHR 0x0A]"] obtain m where
    dec: "decode ?fs = Inr (Some (metadata_dict AsBool m))" and
    ex: "contents ?ff = ''work'' @ [CHR 0x0A] @ (''dom0'' @ [CHR 0x0A])
           \<and> getsize_DATA ?fs = Some 42 \<longrightarrow>
         m = \<lparr>vmname = ''work'', copy_action = True, paste_action = False,
      sent_size = 42, cleared = False, qrexec_clipboard = False,
      malformed_request = False, oversized_request = False,
      buffer_size = 65000, successful = True,
      protocol_version_xside = None, protocol_version_vmside = None\<rparr>"
    by blast
  from ex len ff(4) have "m = \<lparr>vmname = ''work'', copy_action = True, paste_action = False,
      sent_size = 42, cleared = False, qrexec_clipboard = False,
      malformed_request = False, oversized_request = False,
      buffer_size = 65000, successful = True,
      protocol_version_xside = None, protocol_version_vmside = None\<rparr>"
    by blast
  with dec show ?thesis by (simp only:)
qed

lemmas text_eval = metadata_text_def json_member_def json_flag_def optional_member_def
  empty_copy_def numeral_eval

lemma both_actions_loads:
  "json_loads (metadata_text (empty_copy\<lparr>paste_action := True, sent_size := 5, cleared := False\<rparr>)) =
   Inr (metadata_dict AsInt (empty_copy\<lparr>paste_action := True, sent_size := 5, cleared := False\<rparr>))"
  by (simp add: text_eval json_eval metadata_dict_def optional_item_def cong: weak_congs)

lemma is_ascii_text:
  "is_ascii (metadata_text (empty_copy\<lparr>paste_action := True, sent_size := 5, cleared := False\<rparr>))"
  by (simp add: is_ascii_def text_eval dq_def)

lemma no_cr_text:
  "CHR 0x0D \<notin> set (metadata_text (empty_copy\<lparr>paste_action := True, sent_size := 5, cleared := False\<rparr>))"
  by (simp add: text_eval dq_def)

lemma decode_modern:
  assumes "fs METADATA = Some mf" and "fs DATA = Some df" and "mtime mf \<ge> mtime df"
  shows "decode fs = modern_metadata mf"
  using assms by (simp add: decode_def)

lemma modern_metadata_loads:
  assumes "readable mf" and "is_ascii (contents mf)" and "CHR 0x0D \<notin> set (contents mf)"
  shows "modern_metadata mf =
           (case json_loads (contents mf) of
              Inl e \<Rightarrow> if e = JSONDecodeError then Inr None else Inl e
            | Inr v \<Rightarrow> Inr (Some v))"
  using assms by (simp add: modern_metadata_def read_text_def universal_newlines_id)


lemma decode_both_example:
  "decode (no_files(DATA := Some (regular_file ''hello'' 1),
                    METADATA := Some (regular_file (metadata_text (empty_copy\<lparr>paste_action := True, sent_size := 5, cleared := False\<rparr>)) 1))) =
     Inr (Some (metadata_dict AsInt (empty_copy\<lparr>paste_action := True, sent_size := 5, cleared := False\<rparr>)))"
proof -
  let ?m = "empty_copy\<lparr>paste_action := True, sent_size := 5, cleared := False\<rparr>"
  let ?mf = "regular_file (metadata_text ?m) 1"
  let ?fs = "no_files(DATA := Some (regular_file ''hello'' 1), METADATA := Some ?mf)"
  have "decode ?fs = modern_metadata ?mf"
    by (rule decode_modern [where df = "regular_file ''hello'' 1"]) (simp_all add: regular_file_def)
  also have "\<dots> = Inr (Some (metadata_dict AsInt ?m))"
    using is_ascii_text no_cr_text
    by (subst modern_metadata_loads) (simp_all add: regular_file_def both_actions_loads)
  finally show ?thesis .
qed

lemma both_actions_flags:
  "dispatch (metadata_dict AsInt (empty_copy\<lparr>paste_action := True, sent_size := 5, cleared := False\<rparr>)) = Inr Copy"
  "truthy (metadata_dict AsInt (empty_copy\<lparr>paste_action := True, sent_size := 5, cleared := False\<rparr>)) ''copy_action'' = Inr True"
  "truthy (metadata_dict AsInt (empty_copy\<lparr>paste_action := True, sent_size := 5, cleared := False\<rparr>)) ''paste_action'' = Inr True"
  by (simp_all add: dispatch_def truthy_typed bind_Inr empty_copy_def)

lemma dispatch_copy:
  "(dispatch md = Inr Copy) = (truthy md ''copy_action'' = Inr True)"
  by (cases "truthy md ''copy_action''"; cases "truthy md ''paste_action''")
     (auto simp add: dispatch_def bind_def split: if_splits)

lemma dispatch_paste:
  "(dispatch md = Inr Paste) =
     (truthy md ''copy_action'' = Inr False \<and> truthy md ''paste_action'' = Inr True)"
  by (cases "truthy md ''copy_action''"; cases "truthy md ''paste_action''")
     (auto simp add: dispatch_def bind_def split: if_splits)

lemma decode_paste_example:
  "decode (no_files(FROM := Some (regular_file [] 1),
                    DATA := Some (regular_file (replicate 42 CHR ''x'') 1))) =
   Inr (Some (metadata_dict AsBool
     \<lparr>vmname = [], copy_action = False, paste_action = True,
      sent_size = 42, cleared = False, qrexec_clipboard = False,
      malformed_request = False, oversized_request = False,
      buffer_size = 65000, successful = True,
      protocol_version_xside = None, protocol_version_vmside = None\<rparr>))"
proof -
  let ?ff = "regular_file [] 1"
  let ?fs = "no_files(FROM := Some ?ff,
                      DATA := Some (regular_file (replicate 42 CHR ''x'') 1))"
  have mode: "legacy_mode ?fs"
    by (simp add: legacy_mode_def no_files_def)
  have src: "?fs FROM = Some ?ff"
    by simp
  have len: "getsize_DATA ?fs = Some 42"
    by (simp add: getsize_DATA_def regular_file_def)
  have ff: "readable ?ff" "is_ascii (contents ?ff)" "length (contents ?ff) \<le> 8192"
    "contents ?ff = []"
    by (simp_all add: regular_file_def is_ascii_def)
  from legacy_decode_record [OF mode src ff(1-3)] obtain m where
    dec: "decode ?fs = Inr (Some (metadata_dict AsBool m))" and
    fields: "vmname m = takeWhile (\<lambda>c. c \<noteq> CHR 0x0A \<and> c \<noteq> CHR 0x0D) (contents ?ff)"
      "copy_action m = (vmname m \<noteq> [])"
      "paste_action m = (vmname m = [])"
      "sent_size m = (case getsize_DATA ?fs of None \<Rightarrow> 0 | Some k \<Rightarrow> int k)"
      "cleared m = (sent_size m = 0)" "\<not> qrexec_clipboard m" "\<not> malformed_request m"
      "oversized_request m = (sent_size m \<ge> 65000)" "buffer_size m = 65000"
      "(\<not> successful m) = (copy_action m \<and> sent_size m = 0)"
      "protocol_version_xside m = None" "protocol_version_vmside m = None"
    by blast
  from fields len ff(4) have "m = \<lparr>vmname = [], copy_action = False, paste_action = True,
      sent_size = 42, cleared = False, qrexec_clipboard = False,
      malformed_request = False, oversized_request = False,
      buffer_size = 65000, successful = True,
      protocol_version_xside = None, protocol_version_vmside = None\<rparr>"
    by (cases m) simp
  with dec show ?thesis by (simp only:)
qed

lemma legacy_classified:
  assumes "decode fs = Inr (Some md)" and "legacy_mode fs"
  shows "\<exists>m. md = metadata_dict AsBool m \<and> copy_action m = (\<not> paste_action m)
           \<and> dispatch md = Inr (if copy_action m then Copy else Paste)"
proof -
  from assms have leg: "legacy_metadata fs = Inr md"
    by (cases "legacy_metadata fs") (simp_all add: decode_legacy)
  then obtain ff where ff: "fs FROM = Some ff"
    by (cases "fs FROM") (simp_all add: legacy_metadata_def)
  with leg obtain line where line: "read_line ff = Inr line"
    by (cases "read_line ff") (simp_all add: legacy_metadata_def bind_def)
  from legacy_decode_line [OF assms(2) ff line] assms(1) obtain m where
    m: "md = metadata_dict AsBool m" "copy_action m = (vmname m \<noteq> [])"
       "paste_action m = (vmname m = [])"
    by auto
  then have "dispatch md = Inr (if copy_action m then Copy else Paste)"
    by (simp add: dispatch_def truthy_typed bind_Inr)
  with m show ?thesis by auto
qed

text \<open>
  C5 (as the code has it).  For every decoded event: it is classified as a copy exactly
  when \<open>copy_action\<close> is true, and as a paste exactly when \<open>copy_action\<close> is false and
  \<open>paste_action\<close> is true, so a classified event has at least one of the two flags true,
  and one with both true is a copy.  Metadata synthesised in legacy mode has exactly one
  of the two true and is always classified, as a copy or as a paste.  The structured
  format is taken as written, and nothing excludes a file that sets both.
\<close>

theorem classified_actions:
  assumes "decode fs = Inr (Some md)"
  shows "(dispatch md = Inr Copy) = (truthy md ''copy_action'' = Inr True)
       \<and> (dispatch md = Inr Paste) =
           (truthy md ''copy_action'' = Inr False \<and> truthy md ''paste_action'' = Inr True)
       \<and> (truthy md ''copy_action'' = Inr True \<and> truthy md ''paste_action'' = Inr True \<longrightarrow>
            dispatch md = Inr Copy)
       \<and> (legacy_mode fs \<longrightarrow>
            (\<exists>m. md = metadata_dict AsBool m \<and> copy_action m = (\<not> paste_action m)
               \<and> dispatch md = Inr (if copy_action m then Copy else Paste)))"
  using legacy_classified [OF assms] dispatch_copy [of md] dispatch_paste [of md]
  by blast

theorem classified_actions_witness:
  "dispatch (metadata_dict AsBool
     \<lparr>vmname = ''work'', copy_action = True, paste_action = False,
      sent_size = 42, cleared = False, qrexec_clipboard = False,
      malformed_request = False, oversized_request = False,
      buffer_size = 65000, successful = True,
      protocol_version_xside = None, protocol_version_vmside = None\<rparr>) = Inr Copy
   \<and> dispatch (metadata_dict AsBool
     \<lparr>vmname = [], copy_action = False, paste_action = True,
      sent_size = 42, cleared = False, qrexec_clipboard = False,
      malformed_request = False, oversized_request = False,
      buffer_size = 65000, successful = True,
      protocol_version_xside = None, protocol_version_vmside = None\<rparr>) = Inr Paste
   \<and> dispatch (metadata_dict AsInt (empty_copy\<lparr>paste_action := True, sent_size := 5, cleared := False\<rparr>)) = Inr Copy"
proof -
  let ?c = "\<lparr>vmname = ''work'', copy_action = True, paste_action = False,
      sent_size = 42, cleared = False, qrexec_clipboard = False,
      malformed_request = False, oversized_request = False,
      buffer_size = 65000, successful = True,
      protocol_version_xside = None, protocol_version_vmside = None\<rparr>"
  let ?p = "\<lparr>vmname = [], copy_action = False, paste_action = True,
      sent_size = 42, cleared = False, qrexec_clipboard = False,
      malformed_request = False, oversized_request = False,
      buffer_size = 65000, successful = True,
      protocol_version_xside = None, protocol_version_vmside = None\<rparr>"
  let ?cfs = "no_files(FROM := Some (regular_file (''work'' @ [CHR 0x0A]) 1),
                       DATA := Some (regular_file (replicate 42 CHR ''x'') 1))"
  let ?pfs = "no_files(FROM := Some (regular_file [] 1),
                       DATA := Some (regular_file (replicate 42 CHR ''x'') 1))"
  have mode: "legacy_mode ?cfs" "legacy_mode ?pfs"
    by (simp_all add: legacy_mode_def no_files_def)
  from classified_actions [OF decode_work_example] mode(1) obtain m where
    m: "metadata_dict AsBool ?c = metadata_dict AsBool m"
       "dispatch (metadata_dict AsBool ?c) = Inr (if copy_action m then Copy else Paste)"
    by blast
  from m(1) have "copy_action m"
    by (simp add: metadata_dict_def)
  with m(2) have first: "dispatch (metadata_dict AsBool ?c) = Inr Copy"
    by simp
  from classified_actions [OF decode_paste_example] mode(2) obtain m' where
    m': "metadata_dict AsBool ?p = metadata_dict AsBool m'"
       "dispatch (metadata_dict AsBool ?p) = Inr (if copy_action m' then Copy else Paste)"
    by blast
  from m'(1) have "\<not> copy_action m'"
    by (simp add: metadata_dict_def)
  with m'(2) have second: "dispatch (metadata_dict AsBool ?p) = Inr Paste"
    by simp
  from classified_actions [OF decode_both_example] both_actions_flags(2,3)
  have third: "dispatch (metadata_dict AsInt (empty_copy\<lparr>paste_action := True, sent_size := 5, cleared := False\<rparr>)) = Inr Copy"
    by blast
  from first second third show ?thesis by blast
qed

text \<open>The invariant does not hold for the structured format: a metadata file that sets
  both flags is decoded as written, with both flags true, and classified as a copy.\<close>


theorem both_actions_counterexample:
  "decode (no_files(DATA := Some (regular_file ''hello'' 1),
                    METADATA := Some (regular_file
                      (metadata_text (empty_copy\<lparr>paste_action := True, sent_size := 5, cleared := False\<rparr>)) 1))) =
     Inr (Some (metadata_dict AsInt
       (empty_copy\<lparr>paste_action := True, sent_size := 5, cleared := False\<rparr>)))
   \<and> dispatch (metadata_dict AsInt
         (empty_copy\<lparr>paste_action := True, sent_size := 5, cleared := False\<rparr>)) = Inr Copy
   \<and> truthy (metadata_dict AsInt
         (empty_copy\<lparr>paste_action := True, sent_size := 5, cleared := False\<rparr>))
         ''copy_action'' = Inr True
   \<and> truthy (metadata_dict AsInt
         (empty_copy\<lparr>paste_action := True, sent_size := 5, cleared := False\<rparr>))
         ''paste_action'' = Inr True"
  using decode_both_example both_actions_flags by (simp only: simp_thms)

text \<open>
  C3 (the code at the failing inputs).  The handler lets an exception escape: OSError
  when the metadata file exists and the payload file does not (\<^verbatim>\<open>os.path.getmtime(DATA)\<close>
  is outside the \<^verbatim>\<open>try\<close>, while \<^verbatim>\<open>os.path.getsize(DATA)\<close> in the legacy branch is guarded),
  OSError when no file exists at all (the source file is opened unguarded), and KeyError
  when the metadata file holds the JSON object \<open>{}\<close>, which lacks \<open>copy_action\<close>.
\<close>

theorem handler_raises:
  "process_IN_CLOSE_WRITE sc (no_files(METADATA := Some mf)) = Inl OSError
   \<and> process_IN_CLOSE_WRITE sc no_files = Inl OSError
   \<and> process_IN_CLOSE_WRITE sc
        (no_files(DATA := Some (regular_file payload 1),
                  METADATA := Some (regular_file ''{}'' 1))) = Inl (KeyError ''copy_action'')"
proof (intro conjI)
  show "process_IN_CLOSE_WRITE sc (no_files(METADATA := Some mf)) = Inl OSError"
    by (simp add: process_IN_CLOSE_WRITE_def decode_def no_files_def bind_Inl)
  show "process_IN_CLOSE_WRITE sc no_files = Inl OSError"
    by (simp add: process_IN_CLOSE_WRITE_def decode_def legacy_metadata_def no_files_def bind_Inl)
  have "json_loads ''{}'' = Inr (PDict [])"
    by (simp add: json_eval cong: weak_congs)
  then have "decode (no_files(DATA := Some (regular_file payload 1),
                  METADATA := Some (regular_file ''{}'' 1))) = Inr (Some (PDict []))"
    by (simp add: decode_def modern_metadata_def read_text_def regular_file_def is_ascii_def)
  then show "process_IN_CLOSE_WRITE sc
        (no_files(DATA := Some (regular_file payload 1),
                  METADATA := Some (regular_file ''{}'' 1))) = Inl (KeyError ''copy_action'')"
    by (simp add: process_IN_CLOSE_WRITE_def bind_Inr bind_Inl dispatch_def truthy_def py_getitem_def)
qed

subsection \<open>The writers\<close>

lemma dom0_metadata_ascii: "is_ascii (dom0_metadata 0 5)"
  by (simp add: is_ascii_def dom0_metadata_def metadata_line_def dq_def numeral_eval)

lemma dom0_metadata_no_cr: "CHR 0x0D \<notin> set (dom0_metadata 0 5)"
  by (simp add: dom0_metadata_def metadata_line_def dq_def numeral_eval)

lemma dom0_metadata_loads: "json_loads (dom0_metadata 0 5) = Inl JSONDecodeError"
  by (simp add: json_eval dom0_metadata_def metadata_line_def numeral_eval cong: weak_congs)

lemma browser_metadata_loads: "json_loads (browser_metadata vm n) = Inl JSONDecodeError"
  by (simp add: json_eval browser_metadata_def cong: weak_congs)

lemma browser_metadata_ascii: "is_ascii (browser_metadata ''work'' 20)"
  by (simp add: is_ascii_def browser_metadata_def metadata_line_def dq_def numeral_eval)

lemma browser_metadata_no_cr: "CHR 0x0D \<notin> set (browser_metadata ''work'' 20)"
  by (simp add: browser_metadata_def metadata_line_def dq_def numeral_eval)

lemma undecodable_dropped:
  assumes "fs METADATA = Some mf" and "fs DATA = Some df" and "mtime mf \<ge> mtime df"
    and "readable mf" and "is_ascii (contents mf)" and "CHR 0x0D \<notin> set (contents mf)"
    and "json_loads (contents mf) = Inl JSONDecodeError"
  shows "process_IN_CLOSE_WRITE sc fs = Inr None"
  using assms
  by (simp add: process_IN_CLOSE_WRITE_def decode_modern [where df = df]
      modern_metadata_loads bind_Inr)

lemma dom0_run:
  "ops (copy_dom0_clipboard (Some ''hello'') 0 0) =
     [LockAcquire, WriteFile DATA ''hello'', WriteFile FROM ''dom0'', WriteFile XEVENT ''0'',
      WriteFile METADATA (dom0_metadata 0 5), LockRelease]"
  by (simp add: copy_dom0_clipboard_def numeral_eval eval_nat_numeral)

lemma browser_run:
  "ops (copy_to_global_clipboard ''https://example.org/'' ''work'' 0) =
     [WriteFile DATA ''https://example.org/'', WriteFile FROM ''work'', WriteFile XEVENT ''0'',
      WriteFile METADATA (browser_metadata ''work'' 20)]"
  by (simp add: copy_to_global_clipboard_def is_ascii_def numeral_eval eval_nat_numeral)

text \<open>
  C1 (the code at the failing inputs).  The metadata text \<^verbatim>\<open>copy_dom0_clipboard\<close> writes
  for the clipboard text \<open>hello\<close> ends with a comma before the closing brace;
  \<^verbatim>\<open>json.loads\<close> rejects it, and the handler that runs on the files written drops the
  event without any notification.  The text the virtual browser writes begins with two
  opening braces and is rejected as well.
\<close>

theorem written_metadata_rejected:
  "json_loads (dom0_metadata 0 5) = Inl JSONDecodeError
   \<and> process_IN_CLOSE_WRITE ''Ctrl+Shift+V''
       (perform (\<lambda>p. 1) (ops (copy_dom0_clipboard (Some ''hello'') 0 0)) no_files) = Inr None
   \<and> json_loads (browser_metadata ''work'' 20) = Inl JSONDecodeError
   \<and> process_IN_CLOSE_WRITE ''Ctrl+Shift+V''
       (perform (\<lambda>p. 1) (ops (copy_to_global_clipboard ''https://example.org/'' ''work'' 0))
          no_files) = Inr None"
proof (intro conjI)
  show "json_loads (dom0_metadata 0 5) = Inl JSONDecodeError"
    by (rule dom0_metadata_loads)
  show "json_loads (browser_metadata ''work'' 20) = Inl JSONDecodeError"
    by (rule browser_metadata_loads)
  show "process_IN_CLOSE_WRITE ''Ctrl+Shift+V''
       (perform (\<lambda>p. 1) (ops (copy_dom0_clipboard (Some ''hello'') 0 0)) no_files) = Inr None"
    by (rule undecodable_dropped [where mf = "regular_file (dom0_metadata 0 5) 1"
          and df = "regular_file ''hello'' 1"])
       (simp_all add: dom0_run regular_file_def dom0_metadata_ascii
          dom0_metadata_no_cr dom0_metadata_loads)
  show "process_IN_CLOSE_WRITE ''Ctrl+Shift+V''
       (perform (\<lambda>p. 1) (ops (copy_to_global_clipboard ''https://example.org/'' ''work'' 0))
          no_files) = Inr None"
    by (rule undecodable_dropped [where mf = "regular_file (browser_metadata ''work'' 20) 1"
          and df = "regular_file ''https://example.org/'' 1"])
       (simp_all add: browser_run regular_file_def
          browser_metadata_ascii browser_metadata_no_cr browser_metadata_loads)
qed

text \<open>
  C2 (the code at the failing input).  \<^verbatim>\<open>copy_dom0_clipboard\<close> writes the four files
  between taking and releasing the lock; \<^verbatim>\<open>_copy_to_global_clipboard\<close> of the virtual
  browser writes the same four files and never takes the lock.
\<close>

theorem browser_writes_unlocked:
  "writes_locked False (ops (copy_dom0_clipboard (Some ''hello'') 1 2))
   \<and> written (ops (copy_dom0_clipboard (Some ''hello'') 1 2)) = [DATA, FROM, XEVENT, METADATA]
   \<and> \<not> writes_locked False (ops (copy_to_global_clipboard url vm t))
   \<and> written (ops (copy_to_global_clipboard ''https://example.org/'' ''work'' 0)) =
       [DATA, FROM, XEVENT, METADATA]
   \<and> LockAcquire \<notin> set (ops (copy_to_global_clipboard url vm t))"
  by (simp add: copy_dom0_clipboard_def copy_to_global_clipboard_def written_def is_ascii_def)

subsection \<open>The watch controller\<close>

lemma setup_watcher_arms:
  assumes "unarmed app"
  shows "armed (setup_watcher app)"
proof -
  from assms obtain d where d: "temporary_watch app = Some d"
    by (cases "temporary_watch app") (simp_all add: unarmed_def)
  with assms obtain x xs where x: "d = x # xs"
    by (cases d) (simp_all add: unarmed_def)
  with assms d have xs: "xs = []"
    by (cases xs; cases x) (simp_all add: unarmed_def)
  obtain p wd where p: "x = (p, wd)"
    by (cases x)
  from assms d x xs p have
    tw: "temporary_watch app = Some [(FROM_DIR, wd)]" and
    ws: "watches (wm app) = [(wd, FROM_DIR, IN_CREATE)]"
    by (simp_all add: unarmed_def)
  then show ?thesis
    by (simp add: armed_def setup_watcher_def add_watch_def rm_watch_def)
qed

text \<open>A creation event in the Unarmed state: for the path of the source file the handler
  makes one pass of \<^verbatim>\<open>process_IN_CLOSE_WRITE\<close> and, when that pass returns, the controller
  is Armed; for any other path nothing happens.\<close>

lemma create_event_returns:
  assumes "unarmed app"
  shows "passes (process_IN_CREATE sc fs FROM_path app) = [process_IN_CLOSE_WRITE sc fs]
       \<and> (\<forall>u. process_IN_CLOSE_WRITE sc fs = Inr u \<longrightarrow>
             armed (app_after (process_IN_CREATE sc fs FROM_path app))
           \<and> escaped (process_IN_CREATE sc fs FROM_path app) = None)
       \<and> (pathname \<noteq> FROM_path \<longrightarrow>
             passes (process_IN_CREATE sc fs pathname app) = []
           \<and> app_after (process_IN_CREATE sc fs pathname app) = app
           \<and> escaped (process_IN_CREATE sc fs pathname app) = None)"
  using setup_watcher_arms [OF assms]
  by (cases "process_IN_CLOSE_WRITE sc fs") (simp_all add: process_IN_CREATE_def)

lemma init_unarmed: "unarmed (init_watch False \<lparr>watches = [], next_wd = 1\<rparr>)"
  by (simp add: unarmed_def init_watch_def add_watch_def)

lemma create_event_example:
  "passes (process_IN_CREATE ''Ctrl+Shift+V''
       (no_files(FROM := Some (regular_file (''work'' @ [CHR 0x0A]) 1),
                 DATA := Some (regular_file (replicate 42 CHR ''x'') 1)))
       FROM_path (init_watch False \<lparr>watches = [], next_wd = 1\<rparr>)) =
     [process_IN_CLOSE_WRITE ''Ctrl+Shift+V''
       (no_files(FROM := Some (regular_file (''work'' @ [CHR 0x0A]) 1),
                 DATA := Some (regular_file (replicate 42 CHR ''x'') 1)))]
   \<and> armed (app_after (process_IN_CREATE ''Ctrl+Shift+V''
       (no_files(FROM := Some (regular_file (''work'' @ [CHR 0x0A]) 1),
                 DATA := Some (regular_file (replicate 42 CHR ''x'') 1)))
       FROM_path (init_watch False \<lparr>watches = [], next_wd = 1\<rparr>)))
   \<and> app_after (process_IN_CREATE ''Ctrl+Shift+V'' no_files
         ''/var/run/qubes/qubes-clipboard.bin'' (init_watch False \<lparr>watches = [], next_wd = 1\<rparr>)) =
       init_watch False \<lparr>watches = [], next_wd = 1\<rparr>
   \<and> passes (process_IN_CREATE ''Ctrl+Shift+V'' no_files
         ''/var/run/qubes/qubes-clipboard.bin'' (init_watch False \<lparr>watches = [], next_wd = 1\<rparr>)) = []"
proof -
  let ?fs = "no_files(FROM := Some (regular_file (''work'' @ [CHR 0x0A]) 1),
                      DATA := Some (regular_file (replicate 42 CHR ''x'') 1))"
  let ?app = "init_watch False \<lparr>watches = [], next_wd = 1\<rparr>"
  let ?m = "\<lparr>vmname = ''work'', copy_action = True, paste_action = False,
      sent_size = 42, cleared = False, qrexec_clipboard = False,
      malformed_request = False, oversized_request = False,
      buffer_size = 65000, successful = True,
      protocol_version_xside = None, protocol_version_vmside = None\<rparr>"
  have sz: "clipboard_formatted_size (getsize_DATA ?fs) (PInt (sent_size ?m)) = Inr ''42 bytes''"
    by (simp add: formatted_size_small numeral_eval)
  have body: "copy_body ''Ctrl+Shift+V'' (getsize_DATA ?fs) (metadata_dict AsBool ?m) ''42 bytes'' =
      Inr (MSG_COPY_SUCCESS ''work'' ''42 bytes'' ''Ctrl+Shift+V'', ''dialog-information'')"
    by (simp add: copy_body_typed)
  have cls: "dispatch (metadata_dict AsBool ?m) = Inr Copy"
    by (simp add: dispatch_def truthy_typed bind_Inr)
  have "process_IN_CLOSE_WRITE ''Ctrl+Shift+V'' ?fs =
          map_sum id Some (EventHandler_copy ''Ctrl+Shift+V'' (getsize_DATA ?fs)
            (metadata_dict AsBool ?m))"
    unfolding process_IN_CLOSE_WRITE_def decode_work_example bind_Inr option.case cls
      classification.case ..
  also have "\<dots> = map_sum id Some
      (update_clipboard_contents (PStr (vmname ?m)) (PStr ''42 bytes'')
        (if cleared ?m then MSG_COPY_SUCCESS ''work'' ''42 bytes'' ''Ctrl+Shift+V'' @ MSG_WIPED
         else MSG_COPY_SUCCESS ''work'' ''42 bytes'' ''Ctrl+Shift+V'') ''dialog-information'')"
    unfolding EventHandler_copy_typed [OF sz body] ..
  finally have "\<exists>u. process_IN_CLOSE_WRITE ''Ctrl+Shift+V'' ?fs = Inr u"
    by (simp add: update_clipboard_contents_def bind_Inr)
  moreover have "''/var/run/qubes/qubes-clipboard.bin'' \<noteq> FROM_path"
    by (simp add: FROM_path_def)
  ultimately show ?thesis
    using create_event_returns [OF init_unarmed, where sc = "''Ctrl+Shift+V''" and fs = ?fs
        and pathname = "''/var/run/qubes/qubes-clipboard.bin''"]
      create_event_returns [OF init_unarmed, where sc = "''Ctrl+Shift+V''" and fs = no_files
        and pathname = "''/var/run/qubes/qubes-clipboard.bin''"]
    by blast
qed

text \<open>
  C10 (the code at the failing input).  In the Unarmed state, a creation event for the
  source file that arrives when the metadata file exists and the payload file does not:
  the pass raises OSError, the exception leaves \<^verbatim>\<open>process_IN_CREATE\<close> before
  \<^verbatim>\<open>setup_watcher\<close> is called, and the controller is not Armed.
\<close>

theorem create_event_raises:
  "unarmed (init_watch False \<lparr>watches = [], next_wd = 1\<rparr>)
   \<and> \<not> armed (app_after (process_IN_CREATE ''Ctrl+Shift+V''
         (no_files(METADATA := Some (regular_file ''{}'' 1))) FROM_path
         (init_watch False \<lparr>watches = [], next_wd = 1\<rparr>)))
   \<and> escaped (process_IN_CREATE ''Ctrl+Shift+V''
         (no_files(METADATA := Some (regular_file ''{}'' 1))) FROM_path
         (init_watch False \<lparr>watches = [], next_wd = 1\<rparr>)) = Some OSError"
proof -
  have "process_IN_CLOSE_WRITE ''Ctrl+Shift+V'' (no_files(METADATA := Some (regular_file ''{}'' 1)))
          = Inl OSError"
    by (simp add: process_IN_CLOSE_WRITE_def decode_def no_files_def bind_Inl)
  then show ?thesis
    by (simp add: process_IN_CREATE_def init_unarmed)
       (simp add: armed_def init_watch_def add_watch_def FROM_path_def FROM_DIR_def)
qed

subsection \<open>The JSON decoder stays within its recursion bound\<close>

lemma low_surrogate_shorter: "low_surrogate s = Some (lo, rest) \<Longrightarrow> length rest < length s"
  by (auto simp add: low_surrogate_def split: list.splits if_splits option.splits)

lemma scanstring_shorter:
  "scanstring n s acc = Inr (str, rest) \<Longrightarrow> length rest < length s"
proof (induction n arbitrary: s acc)
  case 0
  then show ?case by simp
next
  case (Suc n)
  show ?case
  proof (cases s)
    case Nil
    with Suc.prems show ?thesis by simp
  next
    case (Cons c cs)
    with Suc.prems show ?thesis
      by (auto split: if_splits list.splits option.splits prod.splits
          dest!: Suc.IH low_surrogate_shorter)
  qed
qed

lemma scanstring_in_model: "scanstring n s acc \<noteq> Inl Unmodelled"
proof (induction n arbitrary: s acc)
  case 0
  then show ?case by simp
next
  case (Suc n)
  show ?case
  proof (cases s)
    case Nil
    then show ?thesis by simp
  next
    case (Cons c cs)
    with Suc.IH show ?thesis
      by (auto split: if_splits list.splits option.splits prod.splits)
  qed
qed

lemma match_frac_shorter: "match_frac s = (m, rest) \<Longrightarrow> length rest \<le> length s"
  by (auto simp add: match_frac_def length_dropWhile_le le_SucI split: list.splits if_splits)

lemma match_exp_shorter: "match_exp s = (m, rest) \<Longrightarrow> length rest \<le> length s"
proof (cases s)
  case Nil
  then show "match_exp s = (m, rest) \<Longrightarrow> length rest \<le> length s"
    by (simp add: match_exp_def)
next
  case (Cons e r)
  assume a: "match_exp s = (m, rest)"
  have "length (dropWhile is_digit (drop k r)) \<le> Suc (length r)" for k
    using length_dropWhile_le [of is_digit "drop k r"] by simp
  with a Cons show "length rest \<le> length s"
    by (auto simp add: match_exp_def Let_def split: if_splits)
qed

lemma match_number_shorter:
  assumes "match_number s = Inr (v, rest)"
  shows "length rest < length s"
proof -
  let ?neg = "case s of c # _ \<Rightarrow> c = CHR ''-'' | [] \<Rightarrow> False"
  let ?s1 = "if ?neg then tl s else s"
  from assms obtain d r where s1: "?s1 = d # r"
    by (cases ?s1) (auto simp add: match_number_def Let_def)
  let ?ip = "if d = CHR ''0'' then [d] else d # takeWhile is_digit r"
  let ?s2 = "drop (length ?ip) ?s1"
  obtain frac s3 where f: "match_frac ?s2 = (frac, s3)" by (cases "match_frac ?s2")
  obtain ex s4 where e: "match_exp s3 = (ex, s4)" by (cases "match_exp s3")
  from assms s1 f e have rest: "rest = s4"
    by (auto simp add: match_number_def Let_def split: if_splits)
  have "length s4 \<le> length s3" by (rule match_exp_shorter [OF e])
  also have "\<dots> \<le> length ?s2" by (rule match_frac_shorter [OF f])
  also have "\<dots> < length ?s1" using s1 by auto
  also have "\<dots> \<le> length s" by (cases s) auto
  finally show ?thesis using rest by simp
qed

lemma match_number_in_model: "match_number s \<noteq> Inl Unmodelled"
  by (auto simp add: match_number_def Let_def split: list.splits if_splits prod.splits)

lemma skip_ws_le: "length (skip_ws s) \<le> length s"
  by (simp add: skip_ws_def length_dropWhile_le)

lemma skip_ws_Cons: "skip_ws s = d # r \<Longrightarrow> length r < length s"
  using skip_ws_le [of s] by simp

lemma skip_ws_less: "length x < length (skip_ws y) \<Longrightarrow> length x < length y"
  using skip_ws_le [of y] by simp

lemma scan_shorter:
  "(\<forall>s v rest. scan_once n s = Inr (v, rest) \<longrightarrow> length rest < length s)
   \<and> (\<forall>s acc v rest. parse_object n s acc = Inr (v, rest) \<longrightarrow> length rest < length s)
   \<and> (\<forall>s acc v rest. parse_array n s acc = Inr (v, rest) \<longrightarrow> length rest < length s)"
proof (induction n)
  case 0
  show ?case by simp
next
  case (Suc n)
  then have so: "\<And>s v rest. scan_once n s = Inr (v, rest) \<Longrightarrow> length rest < length s"
    and po: "\<And>s acc v rest. parse_object n s acc = Inr (v, rest) \<Longrightarrow> length rest < length s"
    and pa: "\<And>s acc v rest. parse_array n s acc = Inr (v, rest) \<Longrightarrow> length rest < length s"
    by blast+
  have 1: "length rest < length s" if a: "scan_once (Suc n) s = Inr (v, rest)" for s v rest
  proof (cases s)
    case Nil
    with a show ?thesis by simp
  next
    case (Cons c cs)
    with a show ?thesis
      by (auto simp add: bind_def starts_with_def split: if_splits list.splits sum.splits prod.splits
          dest!: scanstring_shorter match_number_shorter skip_ws_Cons po pa skip_ws_less)
  qed
  have 2: "length rest < length s" if a: "parse_object (Suc n) s acc = Inr (v, rest)" for s acc v rest
  proof (cases s)
    case Nil
    with a show ?thesis by simp
  next
    case (Cons c cs)
    with a show ?thesis
      by (auto simp add: bind_def split: if_splits list.splits sum.splits prod.splits
          dest!: scanstring_shorter skip_ws_Cons so po skip_ws_less)
  qed
  have 3: "length rest < length s" if a: "parse_array (Suc n) s acc = Inr (v, rest)" for s acc v rest
    using a
    by (auto simp add: bind_def split: if_splits list.splits sum.splits prod.splits
          dest!: skip_ws_Cons so pa skip_ws_less)
  from 1 2 3 show ?case by blast
qed

lemmas scan_once_shorter = scan_shorter [THEN conjunct1, rule_format]
lemmas parse_object_shorter = scan_shorter [THEN conjunct2, THEN conjunct1, rule_format]
lemmas parse_array_shorter = scan_shorter [THEN conjunct2, THEN conjunct2, rule_format]

lemma skip_ws_bound:
  "n \<le> 2 * length (skip_ws y) \<Longrightarrow> n \<le> 2 * length y"
  "n \<le> 2 * length (skip_ws y) + 1 \<Longrightarrow> n \<le> 2 * length y + 1"
  using skip_ws_le [of y] by simp_all

lemma scan_in_model:
  "(\<forall>s. scan_once n s = Inl Unmodelled \<longrightarrow> n \<le> 2 * length s)
   \<and> (\<forall>s acc. parse_object n s acc = Inl Unmodelled \<longrightarrow> n \<le> 2 * length s)
   \<and> (\<forall>s acc. parse_array n s acc = Inl Unmodelled \<longrightarrow> n \<le> 2 * length s + 1)"
proof (induction n)
  case 0
  show ?case by simp
next
  case (Suc n)
  then have so: "\<And>s. scan_once n s = Inl Unmodelled \<Longrightarrow> n \<le> 2 * length s"
    and po: "\<And>s acc. parse_object n s acc = Inl Unmodelled \<Longrightarrow> n \<le> 2 * length s"
    and pa: "\<And>s acc. parse_array n s acc = Inl Unmodelled \<Longrightarrow> n \<le> 2 * length s + 1"
    by blast+
  have 1: "Suc n \<le> 2 * length s" if a: "scan_once (Suc n) s = Inl Unmodelled" for s
  proof (cases s)
    case Nil
    with a show ?thesis by simp
  next
    case (Cons c cs)
    with a show ?thesis
      using scanstring_in_model match_number_in_model
      by (auto simp add: bind_def split: if_splits list.splits sum.splits prod.splits
          dest!: skip_ws_Cons po pa skip_ws_less skip_ws_bound)
  qed
  have 2: "Suc n \<le> 2 * length s" if a: "parse_object (Suc n) s acc = Inl Unmodelled" for s acc
  proof (cases s)
    case Nil
    with a show ?thesis by simp
  next
    case (Cons c cs)
    with a show ?thesis
      using scanstring_in_model
      by (auto simp add: bind_def split: if_splits list.splits sum.splits prod.splits
          dest!: scanstring_shorter scan_once_shorter skip_ws_Cons so po skip_ws_less skip_ws_bound)
  qed
  have 3: "Suc n \<le> 2 * length s + 1" if a: "parse_array (Suc n) s acc = Inl Unmodelled" for s acc
    using a
    by (auto simp add: bind_def split: if_splits list.splits sum.splits prod.splits
          dest!: scan_once_shorter skip_ws_Cons so pa skip_ws_less skip_ws_bound)
  from 1 2 3 show ?case by blast
qed

lemma json_loads_in_model: "json_loads s \<noteq> Inl Unmodelled"
proof
  assume a: "json_loads s = Inl Unmodelled"
  then have "scan_once (Suc (2 * length s)) (skip_ws s) = Inl Unmodelled"
    by (auto simp add: json_loads_def bind_def split: sum.splits prod.splits if_splits)
  then have "Suc (2 * length s) \<le> 2 * length (skip_ws s)"
    using scan_in_model by blast
  with skip_ws_le [of s] show False by simp
qed

end
